theory Spec2Isabelle
  imports Main
begin

section \<open>Python values\<close>

text \<open>
  Both API clients work on what \<^verbatim>\<open>response.json()\<close> returns, and the pipeline on the
  dictionaries the clients build from it. A value is \<^verbatim>\<open>None\<close>, a bool, an int, a string,
  a list or a dict with string keys (kept in insertion order). JSON reals are left out:
  no field the code reads is documented as one.
\<close>

datatype json =
    JNull
  | JBool bool
  | JInt int
  | JStr string
  | JArr "json list"
  | JObj "(string \<times> json) list"

type_synonym pydict = "(string \<times> json) list"

datatype py_exn =
    TypeError
  | AttributeError
  | KeyError
  | ValueError
  | IndexError
  | RecursionError
  | DatabaseError

type_synonym date = "nat \<times> nat \<times> nat"

text \<open>
  The parts of the Python standard library whose exact input language is not the
  repository's: \<^verbatim>\<open>int(str)\<close>, \<^verbatim>\<open>repr\<close> of a list or dict (what \<^verbatim>\<open>str()\<close> and an f-string
  print for one) and \<^verbatim>\<open>datetime.strptime(s, '%Y-%m-%d').date()\<close>. They are parameters of
  the model; \<open>None\<close> stands for the \<^verbatim>\<open>ValueError\<close> the library raises.
\<close>

record pylib =
  int_of_str :: "string \<Rightarrow> int option"
  repr :: "json \<Rightarrow> string"
  strptime_ymd :: "string \<Rightarrow> date option"

definition bindE :: "'e + 'a \<Rightarrow> ('a \<Rightarrow> 'e + 'b) \<Rightarrow> 'e + 'b" where
  "bindE m f = (case m of Inl e \<Rightarrow> Inl e | Inr x \<Rightarrow> f x)"

fun truthy :: "json \<Rightarrow> bool" where
  "truthy JNull = False"
| "truthy (JBool b) = b"
| "truthy (JInt n) = (n \<noteq> 0)"
| "truthy (JStr s) = (s \<noteq> [])"
| "truthy (JArr xs) = (xs \<noteq> [])"
| "truthy (JObj kv) = (kv \<noteq> [])"

text \<open>\<^verbatim>\<open>d.get(k)\<close> and \<^verbatim>\<open>d.get(k, default)\<close> on a dict.\<close>

definition dict_get :: "pydict \<Rightarrow> string \<Rightarrow> json" where
  "dict_get d k = (case map_of d k of None \<Rightarrow> JNull | Some v \<Rightarrow> v)"

definition dict_get_default :: "pydict \<Rightarrow> string \<Rightarrow> json \<Rightarrow> json" where
  "dict_get_default d k dflt = (case map_of d k of None \<Rightarrow> dflt | Some v \<Rightarrow> v)"

text \<open>\<^verbatim>\<open>d[k] = v\<close>: replaces the value of an existing key, appends a new key.\<close>

fun dict_set :: "string \<Rightarrow> json \<Rightarrow> pydict \<Rightarrow> pydict" where
  "dict_set k v [] = [(k, v)]"
| "dict_set k v ((k', v') # d) = (if k = k' then (k, v) # d else (k', v') # dict_set k v d)"

text \<open>\<^verbatim>\<open>d.update(e)\<close>.\<close>

fun dict_update :: "pydict \<Rightarrow> pydict \<Rightarrow> pydict" where
  "dict_update d [] = d"
| "dict_update d ((k, v) # e) = dict_update (dict_set k v d) e"

text \<open>The same on a value that need not be a dict: only a dict has \<^verbatim>\<open>.get\<close>.\<close>

fun py_get :: "json \<Rightarrow> string \<Rightarrow> py_exn + json" where
  "py_get (JObj d) k = Inr (dict_get d k)"
| "py_get _ k = Inl AttributeError"

fun py_get_default :: "json \<Rightarrow> string \<Rightarrow> json \<Rightarrow> py_exn + json" where
  "py_get_default (JObj d) k dflt = Inr (dict_get_default d k dflt)"
| "py_get_default _ k dflt = Inl AttributeError"

text \<open>\<^verbatim>\<open>x[k]\<close> with a string key.\<close>

fun py_getitem :: "json \<Rightarrow> string \<Rightarrow> py_exn + json" where
  "py_getitem (JObj d) k = (case map_of d k of None \<Rightarrow> Inl KeyError | Some v \<Rightarrow> Inr v)"
| "py_getitem _ k = Inl TypeError"

text \<open>\<^verbatim>\<open>x[0]\<close>.\<close>

fun py_index0 :: "json \<Rightarrow> py_exn + json" where
  "py_index0 (JArr []) = Inl IndexError"
| "py_index0 (JArr (x # xs)) = Inr x"
| "py_index0 (JStr []) = Inl IndexError"
| "py_index0 (JStr (c # cs)) = Inr (JStr [c])"
| "py_index0 (JObj d) = Inl KeyError"
| "py_index0 _ = Inl TypeError"

text \<open>\<^verbatim>\<open>x[:n]\<close> and \<^verbatim>\<open>x[n:]\<close> for a literal \<open>n \<ge> 0\<close>: strings and lists can be sliced.\<close>

fun py_slice_to :: "nat \<Rightarrow> json \<Rightarrow> py_exn + json" where
  "py_slice_to n (JStr s) = Inr (JStr (take n s))"
| "py_slice_to n (JArr xs) = Inr (JArr (take n xs))"
| "py_slice_to n _ = Inl TypeError"

fun py_slice_from :: "nat \<Rightarrow> json \<Rightarrow> py_exn + json" where
  "py_slice_from n (JStr s) = Inr (JStr (drop n s))"
| "py_slice_from n (JArr xs) = Inr (JArr (drop n xs))"
| "py_slice_from n _ = Inl TypeError"

text \<open>
  Python's \<^verbatim>\<open>==\<close>: \<^verbatim>\<open>True == 1\<close> and \<^verbatim>\<open>False == 0\<close>, lists are compared element by
  element, dicts key by key whatever their order.
\<close>

fun py_eq :: "json \<Rightarrow> json \<Rightarrow> bool" where
  "py_eq JNull b = (b = JNull)"
| "py_eq (JBool x) b =
     (case b of JBool y \<Rightarrow> x = y | JInt n \<Rightarrow> n = (if x then 1 else 0) | _ \<Rightarrow> False)"
| "py_eq (JInt m) b =
     (case b of JBool y \<Rightarrow> m = (if y then 1 else 0) | JInt n \<Rightarrow> m = n | _ \<Rightarrow> False)"
| "py_eq (JStr s) b = (b = JStr s)"
| "py_eq (JArr xs) b = (case b of JArr ys \<Rightarrow> list_all2 py_eq xs ys | _ \<Rightarrow> False)"
| "py_eq (JObj d) b =
     (case b of
        JObj e \<Rightarrow>
          length d = length e \<and>
          list_all (\<lambda>(k, v). case map_of e k of None \<Rightarrow> False | Some w \<Rightarrow> py_eq v w) d
      | _ \<Rightarrow> False)"





text \<open>\<^verbatim>\<open>s.split(c)\<close> for a one-character separator: never the empty list.\<close>

fun split_on :: "char \<Rightarrow> string \<Rightarrow> string list" where
  "split_on c [] = [[]]"
| "split_on c (x # xs) =
     (if x = c then [] # split_on c xs
      else (case split_on c xs of [] \<Rightarrow> [[x]] | w # ws \<Rightarrow> (x # w) # ws))"

definition list_item :: "'a list \<Rightarrow> nat \<Rightarrow> py_exn + 'a" where
  "list_item xs i = (if i < length xs then Inr (xs ! i) else Inl IndexError)"

text \<open>\<^verbatim>\<open>str(n)\<close> of an int, and \<^verbatim>\<open>str(v)\<close> as an f-string prints a value.\<close>

definition digit :: "nat \<Rightarrow> char" where
  "digit d = ''0123456789'' ! d"

fun str_nat :: "nat \<Rightarrow> string" where
  "str_nat n = (if n < 10 then [digit n] else str_nat (n div 10) @ [digit (n mod 10)])"

declare str_nat.simps [simp del]

definition str_int :: "int \<Rightarrow> string" where
  "str_int i = (if i < 0 then CHR ''-'' # str_nat (nat (- i)) else str_nat (nat i))"

fun py_str :: "pylib \<Rightarrow> json \<Rightarrow> string" where
  "py_str L JNull = ''None''"
| "py_str L (JBool b) = (if b then ''True'' else ''False'')"
| "py_str L (JInt n) = str_int n"
| "py_str L (JStr s) = s"
| "py_str L (JArr xs) = repr L (JArr xs)"
| "py_str L (JObj d) = repr L (JObj d)"

text \<open>\<^verbatim>\<open>int(v)\<close>.\<close>

fun py_int :: "pylib \<Rightarrow> json \<Rightarrow> py_exn + int" where
  "py_int L (JInt n) = Inr n"
| "py_int L (JBool b) = Inr (if b then 1 else 0)"
| "py_int L (JStr s) = (case int_of_str L s of None \<Rightarrow> Inl ValueError | Some n \<Rightarrow> Inr n)"
| "py_int L _ = Inl TypeError"

section \<open>Football-Data.org client: \<^verbatim>\<open>api/football_data_client.py\<close>\<close>

text \<open>\<^verbatim>\<open>FootballDataClient._map_status\<close>: a dict lookup with default; a list or a dict is
  not hashable and cannot be looked up.\<close>

definition status_map :: "(string \<times> string) list" where
  "status_map =
     [(''SCHEDULED'', ''scheduled''),
      (''TIMED'', ''scheduled''),
      (''IN_PLAY'', ''live''),
      (''PAUSED'', ''live''),
      (''FINISHED'', ''finished''),
      (''POSTPONED'', ''postponed''),
      (''CANCELLED'', ''cancelled''),
      (''SUSPENDED'', ''postponed''),
      (''AWARDED'', ''finished'')]"

fun map_status :: "json \<Rightarrow> py_exn + string" where
  "map_status (JStr s) = Inr (case map_of status_map s of None \<Rightarrow> ''scheduled'' | Some c \<Rightarrow> c)"
| "map_status (JArr xs) = Inl TypeError"
| "map_status (JObj d) = Inl TypeError"
| "map_status _ = Inr ''scheduled''"

text \<open>\<^verbatim>\<open>FootballDataClient._extract_season\<close>.\<close>

definition extract_season :: "pylib \<Rightarrow> json \<Rightarrow> py_exn + json" where
  "extract_season L match_data =
     bindE (py_get_default match_data ''season'' (JObj [])) (\<lambda>season_data.
     bindE (py_get_default season_data ''startDate'' (JStr [])) (\<lambda>start_date.
     bindE (py_get_default season_data ''endDate'' (JStr [])) (\<lambda>end_date.
       if truthy start_date \<and> truthy end_date then
         bindE (py_slice_to 4 start_date) (\<lambda>start_year.
         bindE (py_slice_to 4 end_date) (\<lambda>end_year.
           if \<not> py_eq start_year end_year then
             bindE (py_slice_from 2 end_year) (\<lambda>end_short.
               Inr (JStr (py_str L start_year @ ''/'' @ py_str L end_short)))
           else Inr start_year))
       else Inr (JStr []))))"

section \<open>TheSportsDB client: \<^verbatim>\<open>api/thesportsdb_client.py\<close>\<close>

text \<open>\<^verbatim>\<open>_parse_score\<close> and \<^verbatim>\<open>_parse_int\<close>: \<^verbatim>\<open>None\<close> for \<^verbatim>\<open>None\<close>, for the empty string and
  for what \<^verbatim>\<open>int\<close> refuses (\<open>py_int\<close> raises nothing but the \<^verbatim>\<open>ValueError\<close> and
  \<^verbatim>\<open>TypeError\<close> that the function catches).\<close>

definition parse_score :: "pylib \<Rightarrow> json \<Rightarrow> json" where
  "parse_score L score =
     (if score = JNull \<or> py_eq score (JStr []) then JNull
      else (case py_int L score of Inr n \<Rightarrow> JInt n | Inl e \<Rightarrow> JNull))"

definition parse_int :: "pylib \<Rightarrow> json \<Rightarrow> json" where
  "parse_int L v =
     (if v = JNull \<or> py_eq v (JStr []) then JNull
      else (case py_int L v of Inr n \<Rightarrow> JInt n | Inl e \<Rightarrow> JNull))"

definition date_less :: "date \<Rightarrow> date \<Rightarrow> bool" where
  "date_less a b =
     (case a of (y, m, d) \<Rightarrow> case b of (y', m', d') \<Rightarrow>
        y < y' \<or> (y = y' \<and> (m < m' \<or> (m = m' \<and> d < d'))))"

text \<open>
  \<^verbatim>\<open>_determine_status\<close>; \<open>today\<close> is \<^verbatim>\<open>datetime.now().date()\<close>. \<^verbatim>\<open>strptime\<close> raises a
  \<^verbatim>\<open>TypeError\<close> on a value that is not a string, and only its \<^verbatim>\<open>ValueError\<close> is caught.
\<close>

definition determine_status :: "pylib \<Rightarrow> date \<Rightarrow> json \<Rightarrow> py_exn + string" where
  "determine_status L today event =
     bindE (py_get event ''intHomeScore'') (\<lambda>home_score.
     bindE (py_get event ''intAwayScore'') (\<lambda>away_score.
       if home_score \<noteq> JNull \<and> away_score \<noteq> JNull then Inr ''finished''
       else
         bindE (py_get event ''dateEvent'') (\<lambda>match_date_str.
           if truthy match_date_str then
             (case match_date_str of
                JStr s \<Rightarrow>
                  (case strptime_ymd L s of
                     Some match_date \<Rightarrow>
                       if date_less match_date today then Inr ''finished'' else Inr ''scheduled''
                   | None \<Rightarrow> Inr ''scheduled'')
              | _ \<Rightarrow> Inl TypeError)
           else Inr ''scheduled'')))"


text \<open>
  \<^verbatim>\<open>_parse_event\<close>: the body of its \<^verbatim>\<open>try\<close>, then the function, which answers \<^verbatim>\<open>None\<close>
  (and logs) on any exception. Every \<^verbatim>\<open>event.get\<close> raises \<^verbatim>\<open>AttributeError\<close> unless the event
  is a dict.
\<close>

definition parse_event_body :: "pylib \<Rightarrow> date \<Rightarrow> json \<Rightarrow> bool \<Rightarrow> py_exn + pydict" where
  "parse_event_body L today event detailed =
     (case event of
        JObj ev \<Rightarrow>
          bindE (determine_status L today event) (\<lambda>status.
            let match_data =
              [(''api_id'', dict_get ev ''idEvent''),
               (''match_date'', dict_get ev ''dateEvent''),
               (''kick_off_time'', dict_get ev ''strTime''),
               (''home_team'', dict_get ev ''strHomeTeam''),
               (''away_team'', dict_get ev ''strAwayTeam''),
               (''home_score'', parse_score L (dict_get ev ''intHomeScore'')),
               (''away_score'', parse_score L (dict_get ev ''intAwayScore'')),
               (''competition'', dict_get ev ''strLeague''),
               (''season'', dict_get ev ''strSeason''),
               (''venue'', dict_get ev ''strVenue''),
               (''round'', dict_get ev ''intRound''),
               (''status'', JStr status)]
            in
              if detailed then
                Inr (dict_update match_data
                  [(''home_score_ht'', parse_score L (dict_get ev ''intHomeScoreHT'')),
                   (''away_score_ht'', parse_score L (dict_get ev ''intAwayScoreHT'')),
                   (''home_shots'', parse_int L (dict_get ev ''intHomeShots'')),
                   (''away_shots'', parse_int L (dict_get ev ''intAwayShots'')),
                   (''home_possession'', parse_int L (dict_get ev ''intHomePossession'')),
                   (''away_possession'', parse_int L (dict_get ev ''intAwayPossession'')),
                   (''home_yellow_cards'', parse_int L (dict_get ev ''intHomeYellowCards'')),
                   (''away_yellow_cards'', parse_int L (dict_get ev ''intAwayYellowCards'')),
                   (''home_red_cards'', parse_int L (dict_get ev ''intHomeRedCards'')),
                   (''away_red_cards'', parse_int L (dict_get ev ''intAwayRedCards'')),
                   (''referee'', dict_get ev ''strReferee''),
                   (''attendance'', parse_int L (dict_get ev ''intSpectators''))])
              else Inr match_data)
      | _ \<Rightarrow> Inl AttributeError)"

definition parse_event :: "pylib \<Rightarrow> date \<Rightarrow> json \<Rightarrow> bool \<Rightarrow> pydict option" where
  "parse_event L today event detailed =
     (case parse_event_body L today event detailed of Inl e \<Rightarrow> None | Inr m \<Rightarrow> Some m)"

text \<open>
  What the HTTP layer answers to one GET: a status code with a JSON body, or a
  \<^verbatim>\<open>RequestException\<close> (time-out, refused connection, a body that is not JSON).
  \<^verbatim>\<open>raise_for_status\<close> raises an \<^verbatim>\<open>HTTPError\<close> for the codes 400 to 599.
\<close>

datatype reply = HttpReply nat json | RequestFailure

definition raise_for_status :: "nat \<Rightarrow> bool" where
  "raise_for_status code = (400 \<le> code \<and> code < 600)"









section \<open>Football-Data.org client: normalisation and requests\<close>

text \<open>\<^verbatim>\<open>s.split(c)\<close> exists on strings only.\<close>

fun str_split :: "char \<Rightarrow> json \<Rightarrow> py_exn + string list" where
  "str_split c (JStr s) = Inr (split_on c s)"
| "str_split c _ = Inl AttributeError"

text \<open>\<^verbatim>\<open>match_data[outer][inner]\<close>.\<close>

definition nested_item :: "json \<Rightarrow> string \<Rightarrow> string \<Rightarrow> py_exn + json" where
  "nested_item match_data outer inner =
     bindE (py_getitem match_data outer) (\<lambda>obj. py_getitem obj inner)"

text \<open>\<^verbatim>\<open>score.get(period, {}).get(side)\<close>.\<close>

definition side_score :: "json \<Rightarrow> string \<Rightarrow> string \<Rightarrow> py_exn + json" where
  "side_score score period side =
     bindE (py_get_default score period (JObj [])) (\<lambda>p. py_get p side)"

text \<open>
  \<^verbatim>\<open>FootballDataClient._parse_match\<close>, in the order of the source: the two entries cut
  from \<^verbatim>\<open>utcDate\<close>, the score block, the block under \<^verbatim>\<open>if detailed\<close>, then the body of the
  \<^verbatim>\<open>try\<close> (the entries of the dict evaluated in the order they are written) and the
  function with its \<^verbatim>\<open>except\<close>.
\<close>

definition utc_match_date :: "pydict \<Rightarrow> py_exn + json" where
  "utc_match_date md =
     (if truthy (dict_get md ''utcDate'') then
        bindE (str_split CHR ''T'' (dict_get_default md ''utcDate'' (JStr []))) (\<lambda>parts.
        bindE (list_item parts 0) (\<lambda>d. Inr (JStr d)))
      else Inr JNull)"

definition utc_kick_off_time :: "pydict \<Rightarrow> py_exn + json" where
  "utc_kick_off_time md =
     (if truthy (dict_get md ''utcDate'') then
        bindE (str_split CHR ''T'' (dict_get_default md ''utcDate'' (JStr []))) (\<lambda>parts.
        bindE (list_item parts 1) (\<lambda>t.
        bindE (list_item (split_on CHR ''Z'' t) 0) (\<lambda>k. Inr (JStr k))))
      else Inr JNull)"

definition with_scores :: "pydict \<Rightarrow> pydict \<Rightarrow> py_exn + pydict" where
  "with_scores md match =
     (let score = dict_get_default md ''score'' (JObj []) in
        if truthy score then
          bindE (side_score score ''fullTime'' ''home'') (\<lambda>home_score.
          bindE (side_score score ''fullTime'' ''away'') (\<lambda>away_score.
          bindE (side_score score ''halfTime'' ''home'') (\<lambda>home_score_ht.
          bindE (side_score score ''halfTime'' ''away'') (\<lambda>away_score_ht.
            Inr (dict_update match
              [(''home_score'', home_score),
               (''away_score'', away_score),
               (''home_score_ht'', home_score_ht),
               (''away_score_ht'', away_score_ht)])))))
        else Inr match)"

definition with_details :: "pydict \<Rightarrow> bool \<Rightarrow> pydict \<Rightarrow> py_exn + pydict" where
  "with_details md detailed match =
     (if detailed then
        (let referees = dict_get_default md ''referees'' (JArr []) in
           bindE (if truthy referees then
                    bindE (py_index0 referees) (\<lambda>first.
                    bindE (py_get first ''name'') (\<lambda>name.
                      Inr (dict_set ''referee'' name match)))
                  else Inr match) (\<lambda>match'.
             Inr (dict_set ''attendance'' (dict_get md ''attendance'') match')))
      else Inr match)"

definition parse_match_body :: "pylib \<Rightarrow> json \<Rightarrow> bool \<Rightarrow> py_exn + pydict" where
  "parse_match_body L match_data detailed =
     (case match_data of
        JObj md \<Rightarrow>
          bindE (utc_match_date md) (\<lambda>match_date.
          bindE (utc_kick_off_time md) (\<lambda>kick_off_time.
          bindE (nested_item match_data ''homeTeam'' ''name'') (\<lambda>home_team.
          bindE (nested_item match_data ''awayTeam'' ''name'') (\<lambda>away_team.
          bindE (nested_item match_data ''homeTeam'' ''id'') (\<lambda>home_team_id.
          bindE (nested_item match_data ''awayTeam'' ''id'') (\<lambda>away_team_id.
          bindE (nested_item match_data ''competition'' ''name'') (\<lambda>competition.
          bindE (extract_season L match_data) (\<lambda>season.
          bindE (map_status (dict_get md ''status'')) (\<lambda>status.
          bindE (with_scores md
                   [(''api_id'', JStr (py_str L (dict_get md ''id''))),
                    (''match_date'', match_date),
                    (''kick_off_time'', kick_off_time),
                    (''home_team'', home_team),
                    (''away_team'', away_team),
                    (''home_team_id'', JStr (py_str L home_team_id)),
                    (''away_team_id'', JStr (py_str L away_team_id)),
                    (''competition'', competition),
                    (''season'', season),
                    (''status'', JStr status),
                    (''round'', dict_get md ''matchday''),
                    (''venue'', dict_get md ''venue'')])
                (with_details md detailed))))))))))
      | _ \<Rightarrow> Inl AttributeError)"

definition parse_match :: "pylib \<Rightarrow> json \<Rightarrow> bool \<Rightarrow> pydict option" where
  "parse_match L match_data detailed =
     (case parse_match_body L match_data detailed of Inl e \<Rightarrow> None | Inr m \<Rightarrow> Some m)"

text \<open>
  The state \<^verbatim>\<open>FootballDataClient._make_request\<close> works on: the clock (\<^verbatim>\<open>time.time()\<close>, in
  whole seconds), \<^verbatim>\<open>self.last_request_time\<close>, the number of GETs sent so far and the
  \<^verbatim>\<open>time.sleep\<close> calls made so far, oldest first.
\<close>

record net =
  clock :: int
  last_request_time :: int
  sent :: nat
  sleeps :: "int list"

definition sleep :: "int \<Rightarrow> net \<Rightarrow> net" where
  "sleep secs w = w\<lparr>clock := clock w + secs, sleeps := sleeps w @ [secs]\<rparr>"

text \<open>\<^verbatim>\<open>_rate_limit\<close>, with \<^verbatim>\<open>self.rate_limit_delay = 6\<close>.\<close>

definition rate_limit :: "net \<Rightarrow> net" where
  "rate_limit w =
     (let elapsed = clock w - last_request_time w;
          w1 = (if elapsed < 6 then sleep (6 - elapsed) w else w)
      in w1\<lparr>last_request_time := clock w1\<rparr>)"

text \<open>
  \<^verbatim>\<open>FootballDataClient._make_request\<close>. \<open>upstream k\<close> is the answer to the \<open>k\<close>-th GET and
  the seconds it takes. On a 429 the function sleeps 60 seconds and calls itself; the
  first argument is the number of nested calls the interpreter still allows, after
  which Python raises \<^verbatim>\<open>RecursionError\<close>.
\<close>

fun fd_make_request ::
  "nat \<Rightarrow> (nat \<Rightarrow> reply \<times> int) \<Rightarrow> string \<Rightarrow> net \<Rightarrow> (py_exn + json option) \<times> net" where
  "fd_make_request 0 upstream api_key w = (Inl RecursionError, w)"
| "fd_make_request (Suc depth) upstream api_key w =
     (if api_key = [] then (Inr None, w)
      else
        (let w1 = rate_limit w;
             w2 = w1\<lparr>clock := clock w1 + snd (upstream (sent w1)), sent := Suc (sent w1)\<rparr>
         in case fst (upstream (sent w1)) of
              HttpReply code body \<Rightarrow>
                if raise_for_status code then
                  (if code = 429 then fd_make_request depth upstream api_key (sleep 60 w2)
                   else (Inr None, w2))
                else (Inr (Some body), w2)
            | RequestFailure \<Rightarrow> (Inr None, w2)))"


section \<open>The store: \<^verbatim>\<open>database/db_manager.py\<close>\<close>

text \<open>
  The tables the pipeline reads and writes, a row per record and a table per list, oldest
  row first. A cell holds the Python value handed to the driver (\<open>JNull\<close> is SQL's
  \<^verbatim>\<open>NULL\<close>); the \<^verbatim>\<open>id\<close> columns are numbers drawn from the table's sequence. The optional
  columns of a team are kept as the dict of the columns that were written, since
  \<^verbatim>\<open>add_team\<close> builds its column list at run time. \<open>m_updated_at\<close> and \<open>st_updated_at\<close> are
  the \<^verbatim>\<open>updated_at\<close> columns.
\<close>

record season_row =
  s_id :: nat
  s_name :: json
  s_start_date :: json
  s_end_date :: json

record team_row =
  t_id :: nat
  t_name :: json
  t_cols :: pydict

record competition_row =
  c_id :: nat
  c_name :: json

record match_row =
  m_id :: nat
  m_season_id :: json
  m_competition_id :: json
  m_match_date :: json
  m_kick_off_time :: json
  m_home_team_id :: json
  m_away_team_id :: json
  m_home_score :: json
  m_away_score :: json
  m_half_time_home_score :: json
  m_half_time_away_score :: json
  m_venue :: json
  m_attendance :: json
  m_referee :: json
  m_match_status :: json
  m_match_round :: json
  m_api_id_thesportsdb :: json
  m_api_id_football_data :: json
  m_notes :: json
  m_updated_at :: json

record stats_row =
  st_match_id :: nat
  st_ipswich_possession :: json
  st_opposition_possession :: json
  st_ipswich_shots :: json
  st_opposition_shots :: json
  st_more :: "json list"
  st_updated_at :: json

datatype level = INFO | WARNING | ERROR

record db =
  seasons :: "season_row list"
  teams :: "team_row list"
  competitions :: "competition_row list"
  matches :: "match_row list"
  match_statistics :: "stats_row list"
  season_seq :: nat
  team_seq :: nat
  match_seq :: nat
  logged :: "(level \<times> string) list"

text \<open>
  \<^verbatim>\<open>database/schema.sql\<close> is not among the sources. What it decides is a parameter:
  for each table written here, whether the table, holding the rows given, accepts a row
  (column types, \<^verbatim>\<open>NOT NULL\<close>, foreign keys, every uniqueness constraint other than the
  conflict target of the statement at hand), and the default of \<^verbatim>\<open>updated_at\<close> as a
  function of the current timestamp.
\<close>

record schema =
  season_ok :: "season_row list \<Rightarrow> season_row \<Rightarrow> bool"
  team_ok :: "team_row list \<Rightarrow> team_row \<Rightarrow> bool"
  match_ok :: "match_row list \<Rightarrow> match_row \<Rightarrow> bool"
  stats_ok :: "stats_row list \<Rightarrow> stats_row \<Rightarrow> bool"
  updated_at_default :: "json \<Rightarrow> json"

text \<open>SQL's \<^verbatim>\<open>=\<close>: never true of a \<^verbatim>\<open>NULL\<close>.\<close>

definition sql_eq :: "json \<Rightarrow> json \<Rightarrow> bool" where
  "sql_eq a b = (a \<noteq> JNull \<and> b \<noteq> JNull \<and> a = b)"

text \<open>
  \<^verbatim>\<open>INSERT ... ON CONFLICT (key) DO UPDATE SET ...\<close> on one table: \<open>conflicts\<close> tells the
  rows whose key is the new row's, \<open>merge\<close> is the \<^verbatim>\<open>SET\<close> list applied to such a row.
  \<open>None\<close> is a statement the table refuses. \<^verbatim>\<open>UPDATE ... SET ... WHERE\<close> likewise.
\<close>

definition upsert ::
  "('r \<Rightarrow> bool) \<Rightarrow> ('r \<Rightarrow> 'r) \<Rightarrow> 'r \<Rightarrow> ('r list \<Rightarrow> 'r \<Rightarrow> bool) \<Rightarrow> 'r list \<Rightarrow> 'r list option" where
  "upsert conflicts merge new ok rows =
     (if list_ex conflicts rows then
        (if list_all (\<lambda>r. if conflicts r
                           then ok (filter (\<lambda>x. \<not> conflicts x) rows) (merge r) else True) rows
         then Some (map (\<lambda>r. if conflicts r then merge r else r) rows)
         else None)
      else if ok rows new then Some (rows @ [new])
      else None)"

definition update_where ::
  "('r \<Rightarrow> bool) \<Rightarrow> ('r \<Rightarrow> 'r) \<Rightarrow> ('r list \<Rightarrow> 'r \<Rightarrow> bool) \<Rightarrow> 'r list \<Rightarrow> 'r list option" where
  "update_where selected assign ok rows =
     (if list_all (\<lambda>r. if selected r
                        then ok (filter (\<lambda>x. \<not> selected x) rows) (assign r) else True) rows
      then Some (map (\<lambda>r. if selected r then assign r else r) rows)
      else None)"

text \<open>\<^verbatim>\<open>get_connection\<close> on an exception: roll back, log, raise again.\<close>

definition log_line :: "level \<Rightarrow> string \<Rightarrow> db \<Rightarrow> db" where
  "log_line lv msg d = d\<lparr>logged := logged d @ [(lv, msg)]\<rparr>"

definition db_failed :: "db \<Rightarrow> (py_exn + 'a) \<times> db" where
  "db_failed d = (Inl DatabaseError, log_line ERROR ''Database operation failed'' d)"

text \<open>The id \<^verbatim>\<open>RETURNING id\<close> gives: that of the row in conflict, or the new one.\<close>

definition returned_id :: "('r \<Rightarrow> bool) \<Rightarrow> ('r \<Rightarrow> nat) \<Rightarrow> nat \<Rightarrow> 'r list \<Rightarrow> nat" where
  "returned_id conflicts ident new_id rows =
     (case filter conflicts rows of [] \<Rightarrow> new_id | r # rest \<Rightarrow> ident r)"

text \<open>\<^verbatim>\<open>result[0]['id'] if result else None\<close> for the three \<^verbatim>\<open>get_..._id\<close> queries.\<close>

definition get_season_id :: "json \<Rightarrow> db \<Rightarrow> nat option" where
  "get_season_id season_name d =
     (case filter (\<lambda>r. sql_eq (s_name r) season_name) (seasons d) of
        [] \<Rightarrow> None | r # rest \<Rightarrow> Some (s_id r))"

definition get_team_id :: "json \<Rightarrow> db \<Rightarrow> nat option" where
  "get_team_id team_name d =
     (case filter (\<lambda>r. sql_eq (t_name r) team_name) (teams d) of
        [] \<Rightarrow> None | r # rest \<Rightarrow> Some (t_id r))"

definition get_competition_id :: "json \<Rightarrow> db \<Rightarrow> nat option" where
  "get_competition_id competition_name d =
     (case filter (\<lambda>r. sql_eq (c_name r) competition_name) (competitions d) of
        [] \<Rightarrow> None | r # rest \<Rightarrow> Some (c_id r))"

text \<open>\<^verbatim>\<open>add_season\<close>: the conflict target is \<^verbatim>\<open>season_name\<close>.\<close>

definition add_season :: "schema \<Rightarrow> json \<Rightarrow> json \<Rightarrow> json \<Rightarrow> db \<Rightarrow> (py_exn + nat) \<times> db" where
  "add_season S season_name start_date end_date d =
     (let new_id = season_seq d;
          d1 = d\<lparr>season_seq := Suc new_id\<rparr>;
          conflicts = (\<lambda>r. sql_eq (s_name r) season_name)
      in case upsert conflicts
                (\<lambda>r. r\<lparr>s_start_date := start_date, s_end_date := end_date\<rparr>)
                \<lparr>s_id = new_id, s_name = season_name,
                 s_start_date = start_date, s_end_date = end_date\<rparr>
                (season_ok S) (seasons d) of
           None \<Rightarrow> db_failed d1
         | Some rows \<Rightarrow>
             (Inr (returned_id conflicts s_id new_id (seasons d)),
              log_line INFO ''Added/updated season'' (d1\<lparr>seasons := rows\<rparr>)))"

text \<open>
  \<^verbatim>\<open>add_team\<close>: \<open>kwargs\<close> are the keyword arguments. The conflict target is
  \<^verbatim>\<open>team_name\<close>; with no optional field to write the statement is \<^verbatim>\<open>DO NOTHING\<close> and
  returns no row on a conflict.
\<close>

definition add_team :: "schema \<Rightarrow> json \<Rightarrow> pydict \<Rightarrow> db \<Rightarrow> (py_exn + nat option) \<times> db" where
  "add_team S team_name kwargs d =
     (let optional_fields =
            [(''short_name'', dict_get kwargs ''short_name''),
             (''stadium'', dict_get kwargs ''stadium''),
             (''city'', dict_get kwargs ''city''),
             (''country'', dict_get_default kwargs ''country'' (JStr ''England'')),
             (''founded_year'', dict_get kwargs ''founded_year''),
             (''api_id_thesportsdb'', dict_get kwargs ''api_id_thesportsdb''),
             (''api_id_football_data'', dict_get kwargs ''api_id_football_data'')];
          fields = filter (\<lambda>(field, v). v \<noteq> JNull) optional_fields;
          new_id = team_seq d;
          d1 = d\<lparr>team_seq := Suc new_id\<rparr>;
          conflicts = (\<lambda>r. sql_eq (t_name r) team_name);
          new = \<lparr>t_id = new_id, t_name = team_name, t_cols = fields\<rparr>
      in if fields \<noteq> [] then
           (case upsert conflicts (\<lambda>r. r\<lparr>t_cols := dict_update (t_cols r) fields\<rparr>) new
                   (team_ok S) (teams d) of
              None \<Rightarrow> db_failed d1
            | Some rows \<Rightarrow>
                (Inr (Some (returned_id conflicts t_id new_id (teams d))),
                 log_line INFO ''Added/updated team'' (d1\<lparr>teams := rows\<rparr>)))
         else
           (case upsert conflicts (\<lambda>r. r) new (team_ok S) (teams d) of
              None \<Rightarrow> db_failed d1
            | Some rows \<Rightarrow>
                if list_ex conflicts (teams d)
                then (Inr (get_team_id team_name d1), d1)
                else (Inr (Some new_id), log_line INFO ''Added/updated team'' (d1\<lparr>teams := rows\<rparr>))))"

text \<open>
  \<^verbatim>\<open>add_match\<close>: the statement names every column but \<^verbatim>\<open>id\<close>, which is drawn from the
  sequence; the conflict target is \<^verbatim>\<open>id\<close>. \<open>now\<close> is \<^verbatim>\<open>CURRENT_TIMESTAMP\<close>.
  \<open>new_match_row\<close> is the row of the \<^verbatim>\<open>VALUES\<close> list, with the id it is given.
\<close>

definition new_match_row :: "schema \<Rightarrow> json \<Rightarrow> pydict \<Rightarrow> nat \<Rightarrow> match_row" where
  "new_match_row S now match_data new_id =
     \<lparr>m_id = new_id,
      m_season_id = dict_get match_data ''season_id'',
      m_competition_id = dict_get match_data ''competition_id'',
      m_match_date = dict_get match_data ''match_date'',
      m_kick_off_time = dict_get match_data ''kick_off_time'',
      m_home_team_id = dict_get match_data ''home_team_id'',
      m_away_team_id = dict_get match_data ''away_team_id'',
      m_home_score = dict_get match_data ''home_score'',
      m_away_score = dict_get match_data ''away_score'',
      m_half_time_home_score = dict_get match_data ''half_time_home_score'',
      m_half_time_away_score = dict_get match_data ''half_time_away_score'',
      m_venue = dict_get match_data ''venue'',
      m_attendance = dict_get match_data ''attendance'',
      m_referee = dict_get match_data ''referee'',
      m_match_status = dict_get_default match_data ''match_status'' (JStr ''scheduled''),
      m_match_round = dict_get match_data ''match_round'',
      m_api_id_thesportsdb = dict_get match_data ''api_id_thesportsdb'',
      m_api_id_football_data = dict_get match_data ''api_id_football_data'',
      m_notes = dict_get match_data ''notes'',
      m_updated_at = updated_at_default S now\<rparr>"

definition add_match :: "schema \<Rightarrow> json \<Rightarrow> pydict \<Rightarrow> db \<Rightarrow> (py_exn + nat) \<times> db" where
  "add_match S now match_data d =
     (let new_id = match_seq d;
          d1 = d\<lparr>match_seq := Suc new_id\<rparr>;
          new = new_match_row S now match_data new_id
      in case upsert (\<lambda>r. m_id r = new_id)
                (\<lambda>r. r\<lparr>m_home_score := m_home_score new,
                        m_away_score := m_away_score new,
                        m_match_status := m_match_status new,
                        m_attendance := m_attendance new,
                        m_updated_at := now\<rparr>)
                new (match_ok S) (matches d) of
           None \<Rightarrow> db_failed d1
         | Some rows \<Rightarrow> (Inr new_id, log_line INFO ''Added match ID'' (d1\<lparr>matches := rows\<rparr>)))"

text \<open>\<^verbatim>\<open>update_match_score\<close>.\<close>

definition update_match_score ::
  "schema \<Rightarrow> json \<Rightarrow> nat \<Rightarrow> json \<Rightarrow> json \<Rightarrow> json \<Rightarrow> db \<Rightarrow> (py_exn + unit) \<times> db" where
  "update_match_score S now match_id home_score away_score status d =
     (case update_where (\<lambda>r. m_id r = match_id)
             (\<lambda>r. r\<lparr>m_home_score := home_score,
                     m_away_score := away_score,
                     m_match_status := status,
                     m_updated_at := now\<rparr>)
             (match_ok S) (matches d) of
        None \<Rightarrow> db_failed d
      | Some rows \<Rightarrow> (Inr (), log_line INFO ''Updated match'' (d\<lparr>matches := rows\<rparr>)))"

text \<open>\<^verbatim>\<open>add_match_statistics\<close>: the conflict target is \<^verbatim>\<open>match_id\<close>; \<open>st_more\<close> holds the
  twelve columns that the \<^verbatim>\<open>SET\<close> list leaves alone, in the order of the statement.\<close>

definition add_match_statistics ::
  "schema \<Rightarrow> json \<Rightarrow> nat \<Rightarrow> pydict \<Rightarrow> db \<Rightarrow> (py_exn + unit) \<times> db" where
  "add_match_statistics S now match_id stats d =
     (let new = \<lparr>st_match_id = match_id,
                 st_ipswich_possession = dict_get stats ''ipswich_possession'',
                 st_opposition_possession = dict_get stats ''opposition_possession'',
                 st_ipswich_shots = dict_get stats ''ipswich_shots'',
                 st_opposition_shots = dict_get stats ''opposition_shots'',
                 st_more = map (dict_get stats)
                   [''ipswich_shots_on_target'', ''opposition_shots_on_target'',
                    ''ipswich_corners'', ''opposition_corners'',
                    ''ipswich_fouls'', ''opposition_fouls'',
                    ''ipswich_offsides'', ''opposition_offsides'',
                    ''ipswich_passes'', ''opposition_passes'',
                    ''ipswich_pass_accuracy'', ''opposition_pass_accuracy''],
                 st_updated_at = updated_at_default S now\<rparr>
      in case upsert (\<lambda>r. st_match_id r = match_id)
                (\<lambda>r. r\<lparr>st_ipswich_possession := st_ipswich_possession new,
                        st_opposition_possession := st_opposition_possession new,
                        st_ipswich_shots := st_ipswich_shots new,
                        st_opposition_shots := st_opposition_shots new,
                        st_updated_at := now\<rparr>)
                new (stats_ok S) (match_statistics d) of
           None \<Rightarrow> db_failed d
         | Some rows \<Rightarrow>
             (Inr (), log_line INFO ''Added statistics for match'' (d\<lparr>match_statistics := rows\<rparr>)))"

section \<open>The pipeline: \<^verbatim>\<open>scripts/fetch_current_season.py\<close> and \<^verbatim>\<open>scripts/daily_update.py\<close>\<close>

text \<open>
  Every call of the store is a transaction of its own, so a step that raises leaves the
  writes of the steps before it in place: a computation returns the store it has reached
  together with its result or the exception.
\<close>

definition bindS ::
  "(py_exn + 'a) \<times> db \<Rightarrow> ('a \<Rightarrow> db \<Rightarrow> (py_exn + 'b) \<times> db) \<Rightarrow> (py_exn + 'b) \<times> db" where
  "bindS m f = (case m of (Inl e, d) \<Rightarrow> (Inl e, d) | (Inr x, d) \<Rightarrow> f x d)"

text \<open>The truth value of an id a lookup returned: \<^verbatim>\<open>None\<close> and \<^verbatim>\<open>0\<close> are false.\<close>

definition id_truthy :: "nat option \<Rightarrow> bool" where
  "id_truthy i = (case i of None \<Rightarrow> False | Some n \<Rightarrow> n \<noteq> 0)"

definition id_cell :: "nat option \<Rightarrow> json" where
  "id_cell i = (case i of None \<Rightarrow> JNull | Some n \<Rightarrow> JInt (int n))"

text \<open>\<^verbatim>\<open>int(season_name.split('/')[0])\<close>.\<close>

definition season_year :: "pylib \<Rightarrow> json \<Rightarrow> py_exn + int" where
  "season_year L season_name =
     bindE (str_split CHR ''/'' season_name) (\<lambda>parts.
     bindE (list_item parts 0) (\<lambda>first. py_int L (JStr first)))"

text \<open>The first block of \<^verbatim>\<open>_store_match\<close>: get the season or create it.\<close>

definition resolve_season :: "pylib \<Rightarrow> schema \<Rightarrow> json \<Rightarrow> db \<Rightarrow> (py_exn + nat option) \<times> db" where
  "resolve_season L S season_name d =
     (let season_id = get_season_id season_name d in
        if \<not> id_truthy season_id then
          (case season_year L season_name of
             Inl e \<Rightarrow> (Inl e, d)
           | Inr year \<Rightarrow>
               bindS (add_season S season_name
                        (JStr (str_int year @ ''-08-01''))
                        (JStr (str_int (year + 1) @ ''-05-31'')) d)
                 (\<lambda>new_id d1. (Inr (Some new_id), d1)))
        else (Inr season_id, d))"

text \<open>The third block: get a team or create it, with no keyword argument.\<close>

definition resolve_team :: "schema \<Rightarrow> json \<Rightarrow> db \<Rightarrow> (py_exn + nat option) \<times> db" where
  "resolve_team S team d =
     (let team_id = get_team_id team d in
        if \<not> id_truthy team_id then add_team S team [] d else (Inr team_id, d))"

text \<open>
  \<^verbatim>\<open>CurrentSeasonFetcher._store_match\<close>: the dict prepared for the store with the
  identifier of the source added, the statistics block, what the function does once the
  season is resolved (\<open>store_in_season\<close>: competition, teams, match, statistics), then the
  body of the \<^verbatim>\<open>try\<close> and the function, whose \<^verbatim>\<open>except\<close> logs an error.
  \<open>current_season\<close> is \<^verbatim>\<open>self.current_season\<close>.
\<close>

definition db_match_data ::
  "pylib \<Rightarrow> pydict \<Rightarrow> string \<Rightarrow> nat option \<Rightarrow> nat option \<Rightarrow> nat option \<Rightarrow> nat option \<Rightarrow> pydict" where
  "db_match_data L match_data source season_id competition_id home_team_id away_team_id =
     (let prepared =
            [(''season_id'', id_cell season_id),
             (''competition_id'', id_cell competition_id),
             (''match_date'', dict_get match_data ''match_date''),
             (''kick_off_time'', dict_get match_data ''kick_off_time''),
             (''home_team_id'', id_cell home_team_id),
             (''away_team_id'', id_cell away_team_id),
             (''home_score'', dict_get match_data ''home_score''),
             (''away_score'', dict_get match_data ''away_score''),
             (''half_time_home_score'', dict_get match_data ''home_score_ht''),
             (''half_time_away_score'', dict_get match_data ''away_score_ht''),
             (''venue'', dict_get match_data ''venue''),
             (''attendance'', dict_get match_data ''attendance''),
             (''referee'', dict_get match_data ''referee''),
             (''match_status'', dict_get_default match_data ''status'' (JStr ''scheduled'')),
             (''match_round'',
                if truthy (dict_get match_data ''round'')
                then JStr (py_str L (dict_get match_data ''round'')) else JNull)]
      in if source = ''thesportsdb'' then
           dict_set ''api_id_thesportsdb'' (dict_get match_data ''api_id'') prepared
         else if source = ''football_data'' then
           dict_set ''api_id_football_data'' (dict_get match_data ''api_id'') prepared
         else prepared)"

definition store_statistics ::
  "schema \<Rightarrow> json \<Rightarrow> pydict \<Rightarrow> nat \<Rightarrow> db \<Rightarrow> (py_exn + unit) \<times> db" where
  "store_statistics S now match_data match_id d =
     (if truthy (dict_get match_data ''home_possession'') then
        (let is_home = py_eq (dict_get match_data ''home_team'') (JStr ''Ipswich Town'');
             stats =
               (if is_home then
                  [(''ipswich_possession'', dict_get match_data ''home_possession''),
                   (''opposition_possession'', dict_get match_data ''away_possession''),
                   (''ipswich_shots'', dict_get match_data ''home_shots''),
                   (''opposition_shots'', dict_get match_data ''away_shots'')]
                else
                  [(''ipswich_possession'', dict_get match_data ''away_possession''),
                   (''opposition_possession'', dict_get match_data ''home_possession''),
                   (''ipswich_shots'', dict_get match_data ''away_shots''),
                   (''opposition_shots'', dict_get match_data ''home_shots'')])
         in add_match_statistics S now match_id stats d)
      else (Inr (), d))"

definition store_in_season ::
  "pylib \<Rightarrow> schema \<Rightarrow> json \<Rightarrow> pydict \<Rightarrow> string \<Rightarrow> nat option \<Rightarrow> db \<Rightarrow> (py_exn + unit) \<times> db" where
  "store_in_season L S now match_data source season_id d1 =
     (let competition_name = dict_get_default match_data ''competition'' (JStr ''Unknown'');
          competition_id = get_competition_id competition_name d1
      in
        if \<not> id_truthy competition_id then
          (Inr (), log_line WARNING ''Competition not found'' d1)
        else
          (let home_team = dict_get match_data ''home_team'';
               away_team = dict_get match_data ''away_team''
           in
             if \<not> truthy home_team \<or> \<not> truthy away_team then
               (Inr (), log_line WARNING ''Missing team information'' d1)
             else
               bindS (resolve_team S home_team d1) (\<lambda>home_team_id d2.
               bindS (resolve_team S away_team d2) (\<lambda>away_team_id d3.
               bindS (add_match S now
                        (db_match_data L match_data source season_id competition_id
                           home_team_id away_team_id) d3) (\<lambda>match_id d4.
                 store_statistics S now match_data match_id d4)))))"

definition store_match_body ::
  "pylib \<Rightarrow> schema \<Rightarrow> json \<Rightarrow> string \<Rightarrow> pydict \<Rightarrow> string \<Rightarrow> db \<Rightarrow> (py_exn + unit) \<times> db" where
  "store_match_body L S now current_season match_data source d =
     (let season_name = dict_get_default match_data ''season'' (JStr current_season) in
        bindS (resolve_season L S season_name d)
          (store_in_season L S now match_data source))"

definition store_match ::
  "pylib \<Rightarrow> schema \<Rightarrow> json \<Rightarrow> string \<Rightarrow> pydict \<Rightarrow> string \<Rightarrow> db \<Rightarrow> db" where
  "store_match L S now current_season match_data source d =
     (case store_match_body L S now current_season match_data source d of
        (Inl e, d') \<Rightarrow> log_line ERROR ''Error storing match'' d'
      | (Inr u, d') \<Rightarrow> d')"

text \<open>\<^verbatim>\<open>DailyUpdater._extract_statistics\<close>.\<close>

definition extract_statistics :: "pydict \<Rightarrow> pydict" where
  "extract_statistics match_data =
     (let is_home = py_eq (dict_get match_data ''home_team'') (JStr ''Ipswich Town'') in
        [(''ipswich_possession'',
            if is_home then dict_get match_data ''home_possession''
            else dict_get match_data ''away_possession''),
         (''opposition_possession'',
            if is_home then dict_get match_data ''away_possession''
            else dict_get match_data ''home_possession''),
         (''ipswich_shots'',
            if is_home then dict_get match_data ''home_shots''
            else dict_get match_data ''away_shots''),
         (''opposition_shots'',
            if is_home then dict_get match_data ''away_shots''
            else dict_get match_data ''home_shots'')])"

text \<open>
  \<^verbatim>\<open>DailyUpdater._update_match_from_api\<close>: the match is looked up by the identifier
  column of the source; the score is written only when both sides are there.
\<close>

definition update_match_from_api_body ::
  "schema \<Rightarrow> json \<Rightarrow> pydict \<Rightarrow> string \<Rightarrow> db \<Rightarrow> (py_exn + unit) \<times> db" where
  "update_match_from_api_body S now match_data source d =
     (let api_id = dict_get match_data ''api_id'' in
        if \<not> truthy api_id then (Inr (), d)
        else
          (case filter (\<lambda>r. sql_eq (if source = ''thesportsdb'' then m_api_id_thesportsdb r
                                     else m_api_id_football_data r) api_id) (matches d) of
             [] \<Rightarrow> (Inr (), d)
           | r # rest \<Rightarrow>
               (let match_id = m_id r;
                    home_score = dict_get match_data ''home_score'';
                    away_score = dict_get match_data ''away_score''
                in
                  bindS (if home_score \<noteq> JNull \<and> away_score \<noteq> JNull then
                           bindS (update_match_score S now match_id home_score away_score
                                    (dict_get_default match_data ''status'' (JStr ''finished'')) d)
                             (\<lambda>u d1. (Inr (), log_line INFO ''Updated match'' d1))
                         else (Inr (), d)) (\<lambda>u d2.
                    if truthy (dict_get match_data ''home_possession'') then
                      add_match_statistics S now match_id (extract_statistics match_data) d2
                    else (Inr (), d2)))))"

definition update_match_from_api :: "schema \<Rightarrow> json \<Rightarrow> pydict \<Rightarrow> string \<Rightarrow> db \<Rightarrow> db" where
  "update_match_from_api S now match_data source d =
     (case update_match_from_api_body S now match_data source d of
        (Inl e, d') \<Rightarrow> log_line ERROR ''Error updating match'' d'
      | (Inr u, d') \<Rightarrow> d')"

section \<open>The vocabulary of the specification\<close>

text \<open>The five canonical statuses, and the status strings Football-Data.org documents.\<close>

definition canonical_statuses :: "string list" where
  "canonical_statuses = [''scheduled'', ''live'', ''finished'', ''postponed'', ''cancelled'']"

definition documented_vocabulary :: "string list" where
  "documented_vocabulary =
     [''SCHEDULED'', ''TIMED'', ''IN_PLAY'', ''PAUSED'', ''FINISHED'',
      ''POSTPONED'', ''CANCELLED'', ''SUSPENDED'', ''AWARDED'']"

text \<open>What a reply that is not a throttling signal makes \<^verbatim>\<open>_make_request\<close> return, and
  the throttling signal itself (HTTP 429).\<close>

definition settled :: "reply \<Rightarrow> json option" where
  "settled r =
     (case r of
        HttpReply code body \<Rightarrow> if raise_for_status code then None else Some body
      | RequestFailure \<Rightarrow> None)"

definition throttled :: "reply \<Rightarrow> bool" where
  "throttled r = (case r of HttpReply code body \<Rightarrow> code = 429 | RequestFailure \<Rightarrow> False)"

text \<open>Two match rows that agree on every column but the full-time scores, the status and
  the update timestamp.\<close>

definition same_but_score :: "match_row \<Rightarrow> match_row \<Rightarrow> bool" where
  "same_but_score r r' =
     (m_id r' = m_id r \<and>
      m_season_id r' = m_season_id r \<and>
      m_competition_id r' = m_competition_id r \<and>
      m_match_date r' = m_match_date r \<and>
      m_kick_off_time r' = m_kick_off_time r \<and>
      m_home_team_id r' = m_home_team_id r \<and>
      m_away_team_id r' = m_away_team_id r \<and>
      m_half_time_home_score r' = m_half_time_home_score r \<and>
      m_half_time_away_score r' = m_half_time_away_score r \<and>
      m_venue r' = m_venue r \<and>
      m_attendance r' = m_attendance r \<and>
      m_referee r' = m_referee r \<and>
      m_match_round r' = m_match_round r \<and>
      m_api_id_thesportsdb r' = m_api_id_thesportsdb r \<and>
      m_api_id_football_data r' = m_api_id_football_data r \<and>
      m_notes r' = m_notes r)"

text \<open>A score pair is both-null or both-set.\<close>

definition pair_ok :: "json \<Rightarrow> json \<Rightarrow> bool" where
  "pair_ok home away = ((home = JNull) = (away = JNull))"

definition score_pair_ok :: "match_row \<Rightarrow> bool" where
  "score_pair_ok r = pair_ok (m_home_score r) (m_away_score r)"

text \<open>
  What an operation that was handed the pair \<open>home\<close>, \<open>away\<close> has made of the match rows
  \<open>rows\<close>: \<open>rows'\<close> holds a row for each row of \<open>rows\<close>, in the same order, and that row is
  the old one untouched or carries the pair handed in; every further row of \<open>rows'\<close>
  carries the pair handed in.
\<close>

definition stores_pair :: "json \<Rightarrow> json \<Rightarrow> match_row list \<Rightarrow> match_row list \<Rightarrow> bool" where
  "stores_pair home away rows rows' =
     (list_all2 (\<lambda>r r'. r' = r \<or> m_home_score r' = home \<and> m_away_score r' = away)
        rows (take (length rows) rows') \<and>
      list_all (\<lambda>r'. m_home_score r' = home \<and> m_away_score r' = away)
        (drop (length rows) rows'))"

text \<open>
  Modelled from the spec: \<^verbatim>\<open>database/schema.sql\<close> is not among the sources, and the
  specification gives the table of matches the uniqueness constraint of its natural key,
  which is the identifier of the provider that supplied the match and, when neither
  provider identifier is known, season, competition, date, home team and away team.
  \<open>same_match\<close> tells two rows with the same natural key: they carry the same identifier of
  a provider or, where neither row carries an identifier, agree on the five columns.
  \<open>natural_key_unique\<close> is what the constraint makes of a schema: the table of matches
  accepts no row while it holds a row of the same match.
\<close>

definition same_match :: "match_row \<Rightarrow> match_row \<Rightarrow> bool" where
  "same_match r r' =
     (if m_api_id_thesportsdb r = JNull \<and> m_api_id_football_data r = JNull \<and>
         m_api_id_thesportsdb r' = JNull \<and> m_api_id_football_data r' = JNull
      then m_season_id r' = m_season_id r \<and>
           m_competition_id r' = m_competition_id r \<and>
           m_match_date r' = m_match_date r \<and>
           m_home_team_id r' = m_home_team_id r \<and>
           m_away_team_id r' = m_away_team_id r
      else sql_eq (m_api_id_thesportsdb r) (m_api_id_thesportsdb r') \<or>
           sql_eq (m_api_id_football_data r) (m_api_id_football_data r'))"

definition natural_key_unique :: "schema \<Rightarrow> bool" where
  "natural_key_unique S =
     (\<forall>rows new. match_ok S rows new \<longrightarrow> list_all (\<lambda>r. \<not> same_match r new) rows)"

text \<open>
  The ids of the match rows were drawn from the sequence of the table: each is below the
  value the sequence gives next.
\<close>

definition ids_below_seq :: "db \<Rightarrow> bool" where
  "ids_below_seq d = list_all (\<lambda>r. m_id r < match_seq d) (matches d)"

text \<open>
  The Match row of a record in a store: the row \<^verbatim>\<open>add_match\<close> makes of the dict that
  \<^verbatim>\<open>_store_match\<close> prepares, with the ids that the season label, the competition name
  and the two team names of the record have in the store \<open>d\<close>, under the id given.
\<close>

definition stored_row ::
  "pylib \<Rightarrow> schema \<Rightarrow> json \<Rightarrow> string \<Rightarrow> pydict \<Rightarrow> string \<Rightarrow> nat \<Rightarrow> db \<Rightarrow> match_row" where
  "stored_row L S now current_season match_data source new_id d =
     new_match_row S now
       (db_match_data L match_data source
          (get_season_id (dict_get_default match_data ''season'' (JStr current_season)) d)
          (get_competition_id (dict_get_default match_data ''competition'' (JStr ''Unknown'')) d)
          (get_team_id (dict_get match_data ''home_team'') d)
          (get_team_id (dict_get match_data ''away_team'') d))
       new_id"

text \<open>The warnings and the errors logged so far.\<close>

definition warnings :: "db \<Rightarrow> nat" where
  "warnings d = length (filter (\<lambda>e. fst e = WARNING) (logged d))"

definition errors :: "db \<Rightarrow> nat" where
  "errors d = length (filter (\<lambda>e. fst e = ERROR) (logged d))"

section \<open>A library instance for running examples\<close>

text \<open>
  An instance of the library parameters on plain input: decimal numerals with an optional
  minus sign, dates written \<^verbatim>\<open>YYYY-MM-DD\<close>. It is used to run the model on examples only;
  the theorems hold for every instance.
\<close>

definition digit_value :: "char \<Rightarrow> nat option" where
  "digit_value c =
     map_of [(CHR ''0'', 0), (CHR ''1'', 1), (CHR ''2'', 2), (CHR ''3'', 3), (CHR ''4'', 4),
             (CHR ''5'', 5), (CHR ''6'', 6), (CHR ''7'', 7), (CHR ''8'', 8), (CHR ''9'', 9)] c"

fun digits_value :: "nat \<Rightarrow> string \<Rightarrow> nat option" where
  "digits_value acc [] = Some acc"
| "digits_value acc (c # cs) =
     (case digit_value c of None \<Rightarrow> None | Some d \<Rightarrow> digits_value (10 * acc + d) cs)"

definition plain_nat :: "string \<Rightarrow> nat option" where
  "plain_nat s = (if s = [] then None else digits_value 0 s)"

definition plain_int :: "string \<Rightarrow> int option" where
  "plain_int s =
     (case s of
        [] \<Rightarrow> None
      | c # cs \<Rightarrow>
          if c = CHR ''-'' then map_option (\<lambda>n. - int n) (plain_nat cs)
          else map_option int (plain_nat s))"

definition plain_date :: "string \<Rightarrow> date option" where
  "plain_date s =
     (if length s = 10 \<and> s ! 4 = CHR ''-'' \<and> s ! 7 = CHR ''-'' then
        (case plain_nat (take 4 s) of
           None \<Rightarrow> None
         | Some y \<Rightarrow>
             (case plain_nat (take 2 (drop 5 s)) of
                None \<Rightarrow> None
              | Some m \<Rightarrow>
                  (case plain_nat (drop 8 s) of
                     None \<Rightarrow> None
                   | Some d \<Rightarrow>
                       if 1 \<le> m \<and> m \<le> 12 \<and> 1 \<le> d \<and> d \<le> 31 then Some (y, m, d)
                       else None)))
      else None)"

definition plain_lib :: pylib where
  "plain_lib = \<lparr>int_of_str = plain_int, repr = (\<lambda>v. ''<repr>''), strptime_ymd = plain_date\<rparr>"


section \<open>Example inputs\<close>

text \<open>A TheSportsDB event with no identifier and no date, and a Football-Data.org match
  with no \<^verbatim>\<open>utcDate\<close> and a \<^verbatim>\<open>null\<close> team name, with the records the adapters make of them.\<close>

definition bare_event :: json where
  "bare_event = JObj [(''strHomeTeam'', JStr ''Ipswich Town''), (''intHomeScore'', JStr ''2'')]"

definition bare_event_record :: pydict where
  "bare_event_record =
     [(''api_id'', JNull), (''match_date'', JNull), (''kick_off_time'', JNull),
      (''home_team'', JStr ''Ipswich Town''), (''away_team'', JNull),
      (''home_score'', JInt 2), (''away_score'', JNull), (''competition'', JNull),
      (''season'', JNull), (''venue'', JNull), (''round'', JNull),
      (''status'', JStr ''scheduled'')]"

definition bare_fd_match :: json where
  "bare_fd_match =
     JObj [(''id'', JInt 327),
           (''homeTeam'', JObj [(''id'', JInt 57), (''name'', JNull)]),
           (''awayTeam'', JObj [(''id'', JInt 349), (''name'', JStr ''Ipswich Town FC'')]),
           (''competition'', JObj [(''name'', JStr ''Championship'')]),
           (''status'', JStr ''POSTPONED'')]"

definition bare_fd_record :: pydict where
  "bare_fd_record =
     [(''api_id'', JStr ''327''), (''match_date'', JNull), (''kick_off_time'', JNull),
      (''home_team'', JNull), (''away_team'', JStr ''Ipswich Town FC''),
      (''home_team_id'', JStr ''57''), (''away_team_id'', JStr ''349''),
      (''competition'', JStr ''Championship''), (''season'', JStr []),
      (''status'', JStr ''postponed''), (''round'', JNull), (''venue'', JNull)]"


text \<open>An upstream that throttles the first two GETs and answers the third, each at once;
  a client that has been idle for 100 seconds.\<close>

definition twice_throttled :: "nat \<Rightarrow> reply \<times> int" where
  "twice_throttled k =
     (if k < 2 then (HttpReply 429 JNull, 0) else (HttpReply 200 (JObj [(''matches'', JArr [])]), 0))"

definition idle_net :: net where
  "idle_net = \<lparr>clock = 100, last_request_time = 0, sent = 0, sleeps = []\<rparr>"

text \<open>
  Modelled from the spec: a stand-in for \<^verbatim>\<open>database/schema.sql\<close> with the uniqueness
  constraints of the natural keys. Those of seasons, teams and match statistics are the
  conflict targets of their statements, so every such row is accepted; a match row is
  accepted unless the table holds a row of the same match. New rows are stamped with the
  current time.
\<close>

definition keyed_schema :: schema where
  "keyed_schema =
     \<lparr>season_ok = (\<lambda>rows r. True), team_ok = (\<lambda>rows r. True),
      match_ok = (\<lambda>rows new. list_all (\<lambda>r. \<not> same_match r new) rows),
      stats_ok = (\<lambda>rows r. True),
      updated_at_default = (\<lambda>now. now)\<rparr>"

text \<open>
  A store with empty tables whose sequences start at 1; the same store holding the
  competition \<^verbatim>\<open>Championship\<close>; a timestamp.
\<close>

definition fresh_db :: db where
  "fresh_db =
     \<lparr>seasons = [], teams = [], competitions = [], matches = [], match_statistics = [],
      season_seq = 1, team_seq = 1, match_seq = 1, logged = []\<rparr>"

definition league_db :: db where
  "league_db = fresh_db\<lparr>competitions := [\<lparr>c_id = 1, c_name = JStr ''Championship''\<rparr>]\<rparr>"

definition one_am :: json where
  "one_am = JStr ''2024-01-01 01:00:00''"

text \<open>A finished match as Football-Data.org delivers it, and the record
  \<^verbatim>\<open>_parse_match\<close> makes of it.\<close>

definition fd_match :: json where
  "fd_match =
     JObj [(''id'', JInt 327),
           (''utcDate'', JStr ''2023-08-12T14:00:00Z''),
           (''status'', JStr ''FINISHED''),
           (''matchday'', JInt 2),
           (''homeTeam'', JObj [(''id'', JInt 349), (''name'', JStr ''Ipswich Town FC'')]),
           (''awayTeam'', JObj [(''id'', JInt 70), (''name'', JStr ''Stoke City FC'')]),
           (''competition'', JObj [(''name'', JStr ''Championship'')]),
           (''season'', JObj [(''startDate'', JStr ''2023-08-04''),
                             (''endDate'', JStr ''2024-05-04'')]),
           (''score'', JObj [(''fullTime'', JObj [(''home'', JInt 2), (''away'', JInt 0)]),
                            (''halfTime'', JObj [(''home'', JInt 1), (''away'', JInt 0)])])]"

definition fd_record :: pydict where
  "fd_record =
     [(''api_id'', JStr ''327''),
      (''match_date'', JStr ''2023-08-12''),
      (''kick_off_time'', JStr ''14:00:00''),
      (''home_team'', JStr ''Ipswich Town FC''),
      (''away_team'', JStr ''Stoke City FC''),
      (''home_team_id'', JStr ''349''),
      (''away_team_id'', JStr ''70''),
      (''competition'', JStr ''Championship''),
      (''season'', JStr ''2023/24''),
      (''status'', JStr ''finished''),
      (''round'', JInt 2),
      (''venue'', JNull),
      (''home_score'', JInt 2),
      (''away_score'', JInt 0),
      (''home_score_ht'', JInt 1),
      (''away_score_ht'', JInt 0)]"

text \<open>The Match row \<^verbatim>\<open>_store_match\<close> writes for that record into \<open>league_db\<close>.\<close>

definition fd_row :: match_row where
  "fd_row =
     \<lparr>m_id = 1,
      m_season_id = JInt 1,
      m_competition_id = JInt 1,
      m_match_date = JStr ''2023-08-12'',
      m_kick_off_time = JStr ''14:00:00'',
      m_home_team_id = JInt 1,
      m_away_team_id = JInt 2,
      m_home_score = JInt 2,
      m_away_score = JInt 0,
      m_half_time_home_score = JInt 1,
      m_half_time_away_score = JInt 0,
      m_venue = JNull,
      m_attendance = JNull,
      m_referee = JNull,
      m_match_status = JStr ''finished'',
      m_match_round = JStr ''2'',
      m_api_id_thesportsdb = JNull,
      m_api_id_football_data = JStr ''327'',
      m_notes = JNull,
      m_updated_at = one_am\<rparr>"

text \<open>A TheSportsDB event that carries the home score only, the record \<^verbatim>\<open>_parse_event\<close>
  makes of it, and a store that knows its season and its competition.\<close>

definition one_sided_event :: json where
  "one_sided_event =
     JObj [(''idEvent'', JStr ''1032723''),
           (''dateEvent'', JStr ''2023-08-12''),
           (''strHomeTeam'', JStr ''Ipswich Town''),
           (''strAwayTeam'', JStr ''Stoke City''),
           (''intHomeScore'', JStr ''2''),
           (''intAwayScore'', JNull),
           (''strLeague'', JStr ''English League Championship''),
           (''strSeason'', JStr ''2023-2024'')]"

definition one_sided_record :: pydict where
  "one_sided_record =
     [(''api_id'', JStr ''1032723''),
      (''match_date'', JStr ''2023-08-12''),
      (''kick_off_time'', JNull),
      (''home_team'', JStr ''Ipswich Town''),
      (''away_team'', JStr ''Stoke City''),
      (''home_score'', JInt 2),
      (''away_score'', JNull),
      (''competition'', JStr ''English League Championship''),
      (''season'', JStr ''2023-2024''),
      (''venue'', JNull),
      (''round'', JNull),
      (''status'', JStr ''finished'')]"

definition tsdb_db :: db where
  "tsdb_db =
     fresh_db\<lparr>seasons := [\<lparr>s_id = 1, s_name = JStr ''2023-2024'',
                            s_start_date = JStr ''2023-08-01'', s_end_date = JStr ''2024-05-31''\<rparr>],
              competitions := [\<lparr>c_id = 1, c_name = JStr ''English League Championship''\<rparr>],
              season_seq := 2\<rparr>"

section \<open>Properties of the status mapper, the status inference and the season label\<close>

lemma py_int_raises: "py_int L v = Inl e \<Longrightarrow> e = ValueError \<or> e = TypeError"
  by (cases v) (auto split: option.splits)

lemma map_status_table:
  "map_status (JStr ''SCHEDULED'') = Inr ''scheduled''"
  "map_status (JStr ''TIMED'') = Inr ''scheduled''"
  "map_status (JStr ''IN_PLAY'') = Inr ''live''"
  "map_status (JStr ''PAUSED'') = Inr ''live''"
  "map_status (JStr ''FINISHED'') = Inr ''finished''"
  "map_status (JStr ''POSTPONED'') = Inr ''postponed''"
  "map_status (JStr ''CANCELLED'') = Inr ''cancelled''"
  "map_status (JStr ''SUSPENDED'') = Inr ''postponed''"
  "map_status (JStr ''AWARDED'') = Inr ''finished''"
  by (simp_all add: status_map_def)

text \<open>
  C6: the status mapper is total on strings. Every string, so every string of the
  documented vocabulary, is mapped to one of the five canonical statuses, and a string
  outside the vocabulary is mapped to \<^verbatim>\<open>scheduled\<close>.
\<close>

theorem map_status_total:
  "(\<exists>c \<in> set canonical_statuses. map_status (JStr s) = Inr c) \<and>
   (s \<notin> set documented_vocabulary \<longrightarrow> map_status (JStr s) = Inr ''scheduled'')"
  by (simp add: canonical_statuses_def documented_vocabulary_def status_map_def)

theorem map_status_total_witness:
  "''EXTRA_TIME'' \<notin> set documented_vocabulary \<and>
   map_status (JStr ''EXTRA_TIME'') = Inr ''scheduled'' \<and>
   (\<exists>c \<in> set canonical_statuses. map_status (JStr ''IN_PLAY'') = Inr c)"
  using map_status_total [of "''EXTRA_TIME''"] map_status_total [of "''IN_PLAY''"]
  by (simp add: documented_vocabulary_def)

text \<open>
  C7: for an event record whose \<^verbatim>\<open>dateEvent\<close> is a string or missing, the inferred status
  is \<^verbatim>\<open>finished\<close> when both raw scores are present (not \<^verbatim>\<open>None\<close>); otherwise \<^verbatim>\<open>finished\<close>
  when the date is there, parses and is strictly before today; otherwise \<^verbatim>\<open>scheduled\<close>.
  An empty date string is no date: the code does not hand it to the parser.
\<close>

theorem determine_status_inferred:
  assumes "dict_get ev ''dateEvent'' = JNull \<or> (\<exists>s. dict_get ev ''dateEvent'' = JStr s)"
  shows "determine_status L today (JObj ev) =
     Inr (if dict_get ev ''intHomeScore'' \<noteq> JNull \<and> dict_get ev ''intAwayScore'' \<noteq> JNull
          then ''finished''
          else if (\<exists>s d. dict_get ev ''dateEvent'' = JStr s \<and> s \<noteq> [] \<and>
                     strptime_ymd L s = Some d \<and> date_less d today)
          then ''finished''
          else ''scheduled'')"
  using assms
  by (auto simp: determine_status_def bindE_def split: option.splits)

theorem determine_status_inferred_witness:
  "(dict_get [(''dateEvent'', JStr ''2023-08-01'')] ''dateEvent'' = JNull \<or>
      (\<exists>s. dict_get [(''dateEvent'', JStr ''2023-08-01'')] ''dateEvent'' = JStr s)) \<and>
   determine_status plain_lib (2024, 1, 1) (JObj [(''dateEvent'', JStr ''2023-08-01'')])
     = Inr ''finished'' \<and>
   determine_status plain_lib (2023, 8, 1) (JObj [(''dateEvent'', JStr ''2023-08-01'')])
     = Inr ''scheduled''"
  using determine_status_inferred
          [of "[(''dateEvent'', JStr ''2023-08-01'')]" plain_lib "(2024, 1, 1)"]
        determine_status_inferred
          [of "[(''dateEvent'', JStr ''2023-08-01'')]" plain_lib "(2023, 8, 1)"]
  by (simp add: dict_get_def plain_lib_def plain_date_def plain_nat_def digit_value_def
        date_less_def)

text \<open>
  C8: the season label. For start and end dates that are strings beginning with a
  four-character year, the label is the start year, a slash and the last two characters
  of the end year when the years differ, and the year alone when they are the same; when
  neither date is available the label is the empty string.
\<close>

theorem extract_season_label:
  assumes "map_of md ''season'' = Some (JObj sd)"
  shows "(dict_get sd ''startDate'' = JStr (ys @ rs) \<and> dict_get sd ''endDate'' = JStr (ye @ re) \<and>
          length ys = 4 \<and> length ye = 4 \<longrightarrow>
            extract_season L (JObj md) =
              Inr (JStr (if ys \<noteq> ye then ys @ ''/'' @ drop 2 ye else ys))) \<and>
         (\<not> truthy (dict_get sd ''startDate'') \<and> \<not> truthy (dict_get sd ''endDate'') \<longrightarrow>
            extract_season L (JObj md) = Inr (JStr []))"
  using assms
  by (auto simp: extract_season_def bindE_def dict_get_default_def dict_get_def
        split: option.splits)

theorem extract_season_label_witness:
  "extract_season plain_lib
     (JObj [(''season'', JObj [(''startDate'', JStr ''2023-08-01''),
                              (''endDate'', JStr ''2024-05-31'')])])
     = Inr (JStr ''2023/24'') \<and>
   extract_season plain_lib
     (JObj [(''season'', JObj [(''startDate'', JStr ''2023-01-01''),
                              (''endDate'', JStr ''2023-12-31'')])])
     = Inr (JStr ''2023'') \<and>
   extract_season plain_lib (JObj [(''season'', JObj [])]) = Inr (JStr [])"
  using extract_season_label
          [of "[(''season'', JObj [(''startDate'', JStr ''2023-08-01''),
                                  (''endDate'', JStr ''2024-05-31'')])]"
              "[(''startDate'', JStr ''2023-08-01''), (''endDate'', JStr ''2024-05-31'')]"
              "''2023''" "''-08-01''" "''2024''" "''-05-31''" plain_lib]
        extract_season_label
          [of "[(''season'', JObj [(''startDate'', JStr ''2023-01-01''),
                                  (''endDate'', JStr ''2023-12-31'')])]"
              "[(''startDate'', JStr ''2023-01-01''), (''endDate'', JStr ''2023-12-31'')]"
              "''2023''" "''-01-01''" "''2023''" "''-12-31''" plain_lib]
        extract_season_label
          [of "[(''season'', JObj [])]" "[]" "[]" "[]" "[]" "[]" plain_lib]
  by (simp add: dict_get_def)

lemma extract_season_no_season_key:
  "map_of md ''season'' = None \<Longrightarrow> extract_season L (JObj md) = Inr (JStr [])"
  by (simp add: extract_season_def bindE_def dict_get_default_def)


section \<open>Properties of the two adapters\<close>

lemma map_of_dict_set: "map_of (dict_set k v d) = (map_of d)(k \<mapsto> v)"
  by (induction d) (auto simp: fun_eq_iff)

lemma dict_get_dict_set:
  "dict_get (dict_set k v d) k' = (if k' = k then v else dict_get d k')"
  by (simp add: dict_get_def map_of_dict_set)

lemma dict_get_dict_update_other:
  "k \<notin> fst ` set e \<Longrightarrow> dict_get (dict_update d e) k = dict_get d k"
proof (induction e arbitrary: d)
  case Nil
  then show ?case by simp
next
  case (Cons a e)
  obtain k' v where a: "a = (k', v)" by (cases a)
  from Cons.prems a have "k \<noteq> k'" and "k \<notin> fst ` set e" by auto
  then show ?case using Cons.IH [of "dict_set k' v d"] by (simp add: a dict_get_dict_set)
qed

lemma bindE_Inr: "bindE x f = Inr y \<longleftrightarrow> (\<exists>a. x = Inr a \<and> f a = Inr y)"
  by (cases x) (simp_all add: bindE_def)

lemma determine_status_range:
  "determine_status L today event = Inr s \<Longrightarrow> s = ''finished'' \<or> s = ''scheduled''"
  by (cases event)
     (auto simp: determine_status_def bindE_def split: if_splits json.splits option.splits)

lemma map_status_range:
  "map_status v = Inr s \<Longrightarrow> s \<in> set canonical_statuses"
  by (cases v) (auto simp: canonical_statuses_def status_map_def split: if_splits)

lemma dict_get_Cons:
  "dict_get ((k, v) # d) k' = (if k' = k then v else dict_get d k')"
  by (simp add: dict_get_def)

lemma parse_event_fields:
  assumes "parse_event L today event detailed = Some m"
  shows "\<exists>ev. event = JObj ev \<and>
           (dict_get m ''status'' = JStr ''finished'' \<or> dict_get m ''status'' = JStr ''scheduled'') \<and>
           dict_get m ''api_id'' = dict_get ev ''idEvent'' \<and>
           dict_get m ''match_date'' = dict_get ev ''dateEvent'' \<and>
           dict_get m ''home_team'' = dict_get ev ''strHomeTeam'' \<and>
           dict_get m ''away_team'' = dict_get ev ''strAwayTeam''"
proof (cases event)
  case (JObj ev)
  from assms obtain status where st: "determine_status L today event = Inr status"
    and m: "m = (let match_data =
              [(''api_id'', dict_get ev ''idEvent''),
               (''match_date'', dict_get ev ''dateEvent''),
               (''kick_off_time'', dict_get ev ''strTime''),
               (''home_team'', dict_get ev ''strHomeTeam''),
               (''away_team'', dict_get ev ''strAwayTeam''),
               (''home_score'', parse_score L (dict_get ev ''intHomeScore'')),
               (''away_score'', parse_score L (dict_get ev ''intAwayScore'')),
               (''competition'', dict_get ev ''strLeague''),
               (''season'', dict_get ev ''strSeason''),
               (''venue'', dict_get ev ''strVenue''),
               (''round'', dict_get ev ''intRound''),
               (''status'', JStr status)]
            in
              if detailed then
                (dict_update match_data
                  [(''home_score_ht'', parse_score L (dict_get ev ''intHomeScoreHT'')),
                   (''away_score_ht'', parse_score L (dict_get ev ''intAwayScoreHT'')),
                   (''home_shots'', parse_int L (dict_get ev ''intHomeShots'')),
                   (''away_shots'', parse_int L (dict_get ev ''intAwayShots'')),
                   (''home_possession'', parse_int L (dict_get ev ''intHomePossession'')),
                   (''away_possession'', parse_int L (dict_get ev ''intAwayPossession'')),
                   (''home_yellow_cards'', parse_int L (dict_get ev ''intHomeYellowCards'')),
                   (''away_yellow_cards'', parse_int L (dict_get ev ''intAwayYellowCards'')),
                   (''home_red_cards'', parse_int L (dict_get ev ''intHomeRedCards'')),
                   (''away_red_cards'', parse_int L (dict_get ev ''intAwayRedCards'')),
                   (''referee'', dict_get ev ''strReferee''),
                   (''attendance'', parse_int L (dict_get ev ''intSpectators''))])
              else match_data)"
    unfolding parse_event_def parse_event_body_def JObj
    by (auto simp: bindE_Inr Let_def simp del: dict_update.simps split: sum.splits if_splits)
  from determine_status_range [OF st] have "status = ''finished'' \<or> status = ''scheduled''" .
  then show ?thesis
    unfolding m JObj Let_def
    by (cases detailed)
       (auto simp: dict_get_dict_update_other dict_get_Cons simp del: dict_update.simps)
qed (use assms in \<open>simp_all add: parse_event_def parse_event_body_def\<close>)

lemma with_scores_other:
  assumes "with_scores md match = Inr m"
      and "k \<notin> {''home_score'', ''away_score'', ''home_score_ht'', ''away_score_ht''}"
  shows "dict_get m k = dict_get match k"
  using assms
  by (auto simp: with_scores_def Let_def bindE_Inr dict_get_dict_update_other
        simp del: dict_update.simps split: if_splits)

lemma with_details_other:
  assumes "with_details md detailed match = Inr m"
      and "k \<notin> {''referee'', ''attendance''}"
  shows "dict_get m k = dict_get match k"
  using assms
  by (auto simp: with_details_def Let_def bindE_Inr dict_get_dict_set split: if_splits)

lemma utc_match_date_null:
  "utc_match_date md = Inr v \<Longrightarrow> v = JNull \<longleftrightarrow> \<not> truthy (dict_get md ''utcDate'')"
  by (auto simp: utc_match_date_def bindE_Inr split: if_splits)

lemma parse_match_fields:
  assumes "parse_match L match_data detailed = Some m"
  shows "\<exists>md. match_data = JObj md \<and>
           (\<exists>c \<in> set canonical_statuses. dict_get m ''status'' = JStr c) \<and>
           dict_get m ''api_id'' = JStr (py_str L (dict_get md ''id'')) \<and>
           nested_item match_data ''homeTeam'' ''name'' = Inr (dict_get m ''home_team'') \<and>
           nested_item match_data ''awayTeam'' ''name'' = Inr (dict_get m ''away_team'') \<and>
           (dict_get m ''match_date'' = JNull \<longleftrightarrow> \<not> truthy (dict_get md ''utcDate''))"
proof (cases match_data)
  case (JObj md)
  from assms have body: "parse_match_body L (JObj md) detailed = Inr m"
    by (simp add: parse_match_def JObj split: sum.splits)
  then obtain match_date kick_off_time home_team away_team home_team_id away_team_id
      competition season status match1
    where date: "utc_match_date md = Inr match_date"
      and home: "nested_item (JObj md) ''homeTeam'' ''name'' = Inr home_team"
      and away: "nested_item (JObj md) ''awayTeam'' ''name'' = Inr away_team"
      and status: "map_status (dict_get md ''status'') = Inr status"
      and m1: "with_scores md
                   [(''api_id'', JStr (py_str L (dict_get md ''id''))),
                    (''match_date'', match_date),
                    (''kick_off_time'', kick_off_time),
                    (''home_team'', home_team),
                    (''away_team'', away_team),
                    (''home_team_id'', JStr (py_str L home_team_id)),
                    (''away_team_id'', JStr (py_str L away_team_id)),
                    (''competition'', competition),
                    (''season'', season),
                    (''status'', JStr status),
                    (''round'', dict_get md ''matchday''),
                    (''venue'', dict_get md ''venue'')] = Inr match1"
      and m: "with_details md detailed match1 = Inr m"
    unfolding parse_match_body_def by (auto simp: bindE_Inr)
  have get: "dict_get m k = dict_get 
                   [(''api_id'', JStr (py_str L (dict_get md ''id''))),
                    (''match_date'', match_date),
                    (''kick_off_time'', kick_off_time),
                    (''home_team'', home_team),
                    (''away_team'', away_team),
                    (''home_team_id'', JStr (py_str L home_team_id)),
                    (''away_team_id'', JStr (py_str L away_team_id)),
                    (''competition'', competition),
                    (''season'', season),
                    (''status'', JStr status),
                    (''round'', dict_get md ''matchday''),
                    (''venue'', dict_get md ''venue'')] k"
    if "k \<notin> {''home_score'', ''away_score'', ''home_score_ht'', ''away_score_ht''}"
      and "k \<notin> {''referee'', ''attendance''}" for k
    using with_details_other [OF m that(2)] with_scores_other [OF m1 that(1)] by simp
  have "dict_get m ''status'' = JStr status" by (subst get) (simp_all add: dict_get_Cons)
  moreover have "dict_get m ''api_id'' = JStr (py_str L (dict_get md ''id''))"
    by (subst get) (simp_all add: dict_get_Cons)
  moreover have "dict_get m ''home_team'' = home_team"
    by (subst get) (simp_all add: dict_get_Cons)
  moreover have "dict_get m ''away_team'' = away_team"
    by (subst get) (simp_all add: dict_get_Cons)
  moreover have "dict_get m ''match_date'' = match_date"
    by (subst get) (simp_all add: dict_get_Cons)
  ultimately show ?thesis
    using JObj home away map_status_range [OF status] utc_match_date_null [OF date]
    by simp
qed (use assms in \<open>simp_all add: parse_match_def parse_match_body_def\<close>)












lemma parse_event_bare:
  "parse_event plain_lib (2024, 1, 1) bare_event False = Some bare_event_record"
  by (simp add: bare_event_def bare_event_record_def parse_event_def parse_event_body_def
        determine_status_def bindE_def dict_get_def parse_score_def plain_lib_def
        plain_int_def plain_nat_def digit_value_def)

lemma parse_match_bare: "parse_match plain_lib bare_fd_match False = Some bare_fd_record"
  by (simp add: bare_fd_match_def bare_fd_record_def parse_match_def parse_match_body_def
        utc_match_date_def utc_kick_off_time_def nested_item_def with_scores_def
        with_details_def extract_season_def bindE_def dict_get_def dict_get_default_def
        status_map_def str_int_def str_nat.simps digit_def)


text \<open>
  C9, as the code has it: every record an adapter returns has its status populated, with
  one of the five canonical statuses, and a record of \<^verbatim>\<open>FootballDataClient._parse_match\<close>
  also its identifier, always a string. The date, the two team names and TheSportsDB's
  identifier are copied from the raw record unchecked: TheSportsDB's are the raw
  \<^verbatim>\<open>dateEvent\<close>, \<^verbatim>\<open>strHomeTeam\<close>, \<^verbatim>\<open>strAwayTeam\<close> and \<^verbatim>\<open>idEvent\<close>, \<^verbatim>\<open>null\<close> when those are
  \<^verbatim>\<open>null\<close> or missing; Football-Data's team names are the raw \<^verbatim>\<open>name\<close> entries, and its
  date is \<^verbatim>\<open>null\<close> exactly when \<^verbatim>\<open>utcDate\<close> is missing or empty.
\<close>

theorem normalized_record_fields:
  "(parse_event L today event detailed = Some m \<longrightarrow>
      (\<exists>ev. event = JObj ev \<and>
         (\<exists>c \<in> set canonical_statuses. dict_get m ''status'' = JStr c) \<and>
         dict_get m ''api_id'' = dict_get ev ''idEvent'' \<and>
         dict_get m ''match_date'' = dict_get ev ''dateEvent'' \<and>
         dict_get m ''home_team'' = dict_get ev ''strHomeTeam'' \<and>
         dict_get m ''away_team'' = dict_get ev ''strAwayTeam'')) \<and>
   (parse_match L match_data detailed' = Some m' \<longrightarrow>
      (\<exists>md. match_data = JObj md \<and>
         (\<exists>c \<in> set canonical_statuses. dict_get m' ''status'' = JStr c) \<and>
         dict_get m' ''api_id'' = JStr (py_str L (dict_get md ''id'')) \<and>
         (dict_get m' ''match_date'' = JNull \<longleftrightarrow> \<not> truthy (dict_get md ''utcDate'')) \<and>
         nested_item match_data ''homeTeam'' ''name'' = Inr (dict_get m' ''home_team'') \<and>
         nested_item match_data ''awayTeam'' ''name'' = Inr (dict_get m' ''away_team'')))"
proof (intro conjI impI)
  assume "parse_event L today event detailed = Some m"
  from parse_event_fields [OF this]
  show "\<exists>ev. event = JObj ev \<and>
         (\<exists>c \<in> set canonical_statuses. dict_get m ''status'' = JStr c) \<and>
         dict_get m ''api_id'' = dict_get ev ''idEvent'' \<and>
         dict_get m ''match_date'' = dict_get ev ''dateEvent'' \<and>
         dict_get m ''home_team'' = dict_get ev ''strHomeTeam'' \<and>
         dict_get m ''away_team'' = dict_get ev ''strAwayTeam''"
    by (auto simp: canonical_statuses_def)
next
  assume "parse_match L match_data detailed' = Some m'"
  from parse_match_fields [OF this]
  show "\<exists>md. match_data = JObj md \<and>
         (\<exists>c \<in> set canonical_statuses. dict_get m' ''status'' = JStr c) \<and>
         dict_get m' ''api_id'' = JStr (py_str L (dict_get md ''id'')) \<and>
         (dict_get m' ''match_date'' = JNull \<longleftrightarrow> \<not> truthy (dict_get md ''utcDate'')) \<and>
         nested_item match_data ''homeTeam'' ''name'' = Inr (dict_get m' ''home_team'') \<and>
         nested_item match_data ''awayTeam'' ''name'' = Inr (dict_get m' ''away_team'')"
    by blast
qed

theorem normalized_record_fields_witness:
  "parse_event plain_lib (2024, 1, 1) bare_event False = Some bare_event_record \<and>
   (\<exists>c \<in> set canonical_statuses. dict_get bare_event_record ''status'' = JStr c) \<and>
   parse_match plain_lib bare_fd_match False = Some bare_fd_record \<and>
   (\<exists>c \<in> set canonical_statuses. dict_get bare_fd_record ''status'' = JStr c) \<and>
   dict_get bare_fd_record ''api_id'' = JStr ''327''"
  using normalized_record_fields
          [of plain_lib "(2024, 1, 1)" bare_event False bare_event_record
              bare_fd_match False bare_fd_record]
        parse_event_bare parse_match_bare
  by (auto simp: bare_fd_match_def dict_get_Cons str_int_def str_nat.simps digit_def)

theorem normalized_record_fields_counterexample:
  "parse_event plain_lib (2024, 1, 1) bare_event False = Some bare_event_record \<and>
   dict_get bare_event_record ''api_id'' = JNull \<and>
   dict_get bare_event_record ''match_date'' = JNull \<and>
   dict_get bare_event_record ''away_team'' = JNull \<and>
   parse_match plain_lib bare_fd_match False = Some bare_fd_record \<and>
   dict_get bare_fd_record ''match_date'' = JNull \<and>
   dict_get bare_fd_record ''home_team'' = JNull"
  using parse_event_bare parse_match_bare
  by (simp add: bare_event_record_def bare_fd_record_def dict_get_def)

section \<open>Properties of the rate-limited request\<close>

lemma sent_rate_limit [simp]: "sent (rate_limit w) = sent w"
  by (simp add: rate_limit_def sleep_def Let_def)

lemma fd_make_request_throttled:
  assumes "api_key \<noteq> []" and "throttled (fst (upstream (sent w)))"
  shows "fd_make_request (Suc depth) upstream api_key w =
           fd_make_request depth upstream api_key
             (sleep 60 ((rate_limit w)\<lparr>clock := clock (rate_limit w) + snd (upstream (sent w)),
                                      sent := Suc (sent w)\<rparr>))"
  using assms
  by (auto simp: throttled_def raise_for_status_def Let_def split: reply.splits)

lemma fd_make_request_settled:
  assumes "api_key \<noteq> []" and "\<not> throttled (fst (upstream (sent w)))"
  shows "fd_make_request (Suc depth) upstream api_key w =
           (Inr (settled (fst (upstream (sent w)))),
            (rate_limit w)\<lparr>clock := clock (rate_limit w) + snd (upstream (sent w)),
                            sent := Suc (sent w)\<rparr>)"
  using assms
  by (auto simp: throttled_def settled_def Let_def split: reply.splits)

lemma rate_limit_after_cooldown:
  assumes "0 \<le> dur"
  shows "rate_limit (sleep 60 ((rate_limit w)\<lparr>clock := clock (rate_limit w) + dur, sent := k\<rparr>)) =
           (sleep 60 ((rate_limit w)\<lparr>clock := clock (rate_limit w) + dur, sent := k\<rparr>))
             \<lparr>last_request_time := clock (rate_limit w) + dur + 60\<rparr>"
  using assms by (simp add: rate_limit_def sleep_def Let_def)

text \<open>
  C3, as the code has it: on every 429 the fetcher sleeps the fixed 60 seconds and sends
  the same call again, and it goes on doing so for as long as the answer is a 429 and
  the interpreter allows another nested call. When \<open>n\<close> throttled answers in a row are
  followed by an answer that is not a 429, the call returns what that answer settles
  (its body, or \<^verbatim>\<open>None\<close> for a failure) after \<open>n + 1\<close> GETs and \<open>n\<close> cooldowns of 60 seconds
  (the answers taking no negative time). A second throttling signal in a row is answered
  by a second cooldown and a third GET, not by a failure.
\<close>

theorem fd_make_request_retries:
  assumes "api_key \<noteq> []"
      and "\<forall>k. 0 \<le> snd (upstream k)"
      and "\<forall>i < n. throttled (fst (upstream (sent w + i)))"
      and "\<not> throttled (fst (upstream (sent w + n)))"
      and "n < depth"
  shows "fst (fd_make_request depth upstream api_key w) =
           Inr (settled (fst (upstream (sent w + n)))) \<and>
         sent (snd (fd_make_request depth upstream api_key w)) = sent w + n + 1 \<and>
         sleeps (snd (fd_make_request depth upstream api_key w)) =
           sleeps (rate_limit w) @ replicate n 60"
  using assms(3-5)
proof (induction n arbitrary: w depth)
  case 0
  then obtain d where d: "depth = Suc d" by (cases depth) auto
  from 0 assms(1) show ?case
    by (simp add: d fd_make_request_settled del: fd_make_request.simps)
next
  case (Suc n)
  then obtain d where d: "depth = Suc d" and nd: "n < d" by (cases depth) auto
  let ?w = "sleep 60 ((rate_limit w)\<lparr>clock := clock (rate_limit w) + snd (upstream (sent w)),
                                      sent := Suc (sent w)\<rparr>)"
  from Suc.prems(1) have first: "throttled (fst (upstream (sent w)))"
    by (metis add.right_neutral zero_less_Suc)
  have step: "fd_make_request depth upstream api_key w = fd_make_request d upstream api_key ?w"
    unfolding d using assms(1) first by (rule fd_make_request_throttled)
  have sent: "sent ?w = Suc (sent w)" by (simp add: sleep_def)
  have "\<forall>i<n. throttled (fst (upstream (sent ?w + i)))"
    using Suc.prems(1) by (auto simp: sent)
  moreover have "\<not> throttled (fst (upstream (sent ?w + n)))"
    using Suc.prems(2) by (simp add: sent)
  ultimately have IH:
    "fst (fd_make_request d upstream api_key ?w) = Inr (settled (fst (upstream (sent ?w + n)))) \<and>
     sent (snd (fd_make_request d upstream api_key ?w)) = sent ?w + n + 1 \<and>
     sleeps (snd (fd_make_request d upstream api_key ?w)) = sleeps (rate_limit ?w) @ replicate n 60"
    using Suc.IH [of ?w d] nd by blast
  have "sleeps (rate_limit ?w) = sleeps (rate_limit w) @ [60]"
    using assms(2) by (simp add: rate_limit_after_cooldown) (simp add: sleep_def)
  with IH show ?case
    by (simp add: step sent replicate_app_Cons_same)
qed

theorem fd_make_request_retries_witness:
  "fst (fd_make_request 1000 twice_throttled ''token'' idle_net) =
     Inr (Some (JObj [(''matches'', JArr [])])) \<and>
   sent (snd (fd_make_request 1000 twice_throttled ''token'' idle_net)) = 3 \<and>
   sleeps (snd (fd_make_request 1000 twice_throttled ''token'' idle_net)) = [60, 60]"
proof -
  have "\<forall>i<2. throttled (fst (twice_throttled (sent idle_net + i)))"
    by (simp add: twice_throttled_def throttled_def idle_net_def)
  moreover have "\<not> throttled (fst (twice_throttled (sent idle_net + 2)))"
    by (simp add: twice_throttled_def throttled_def idle_net_def)
  moreover have "\<forall>k. 0 \<le> snd (twice_throttled k)"
    by (simp add: twice_throttled_def)
  ultimately show ?thesis
    using fd_make_request_retries [of "''token''" twice_throttled 2 idle_net 1000]
    by (simp add: twice_throttled_def settled_def raise_for_status_def idle_net_def
          rate_limit_def sleep_def Let_def numeral_2_eq_2)
qed

lemma fd_make_request_unfold:
  "0 < depth \<Longrightarrow>
   fd_make_request depth upstream api_key w =
     (if api_key = [] then (Inr None, w)
      else
        (let w1 = rate_limit w;
             w2 = w1\<lparr>clock := clock w1 + snd (upstream (sent w1)), sent := Suc (sent w1)\<rparr>
         in case fst (upstream (sent w1)) of
              HttpReply code body \<Rightarrow>
                if raise_for_status code then
                  (if code = 429 then fd_make_request (depth - 1) upstream api_key (sleep 60 w2)
                   else (Inr None, w2))
                else (Inr (Some body), w2)
            | RequestFailure \<Rightarrow> (Inr None, w2)))"
  by (cases depth) (auto simp: Let_def split: reply.splits)

theorem fd_make_request_retries_counterexample:
  "fst (twice_throttled 0) = HttpReply 429 JNull \<and>
   fst (twice_throttled 1) = HttpReply 429 JNull \<and>
   fd_make_request 1000 twice_throttled ''token'' idle_net =
     (Inr (Some (JObj [(''matches'', JArr [])])),
      \<lparr>clock = 220, last_request_time = 220, sent = 3, sleeps = [60, 60]\<rparr>)"
  by (simp add: fd_make_request_unfold twice_throttled_def idle_net_def rate_limit_def
        sleep_def raise_for_status_def Let_def del: fd_make_request.simps)

lemma fd_make_request_exhausted:
  assumes "api_key \<noteq> []" and "\<forall>i < depth. throttled (fst (upstream (sent w + i)))"
  shows "fst (fd_make_request depth upstream api_key w) = Inl RecursionError \<and>
         sent (snd (fd_make_request depth upstream api_key w)) = sent w + depth"
  using assms(2)
proof (induction depth arbitrary: w)
  case 0
  then show ?case by simp
next
  case (Suc depth)
  let ?w = "sleep 60 ((rate_limit w)\<lparr>clock := clock (rate_limit w) + snd (upstream (sent w)),
                                      sent := Suc (sent w)\<rparr>)"
  from Suc.prems have first: "throttled (fst (upstream (sent w)))"
    by (metis add.right_neutral zero_less_Suc)
  have sent: "sent ?w = Suc (sent w)" by (simp add: sleep_def)
  have "\<forall>i<depth. throttled (fst (upstream (sent ?w + i)))"
    using Suc.prems by (auto simp: sent)
  from Suc.IH [OF this] assms(1) first show ?case
    by (simp add: fd_make_request_throttled sent del: fd_make_request.simps)
qed

section \<open>Properties of the store\<close>

lemma same_but_score_refl: "same_but_score r r"
  by (simp add: same_but_score_def)

lemma list_all2_map_right: "(\<And>x. P x (f x)) \<Longrightarrow> list_all2 P xs (map f xs)"
  by (induction xs) auto

lemma list_all2_same: "(\<And>x. P x x) \<Longrightarrow> list_all2 P xs xs"
  by (induction xs) auto

text \<open>
  C5: \<^verbatim>\<open>update_match_score\<close> leaves every match row as it was in every column but the two
  full-time scores, the status and the update timestamp (venue, referee and attendance
  among the columns kept), keeps the number and order of the rows, and touches no other
  table.
\<close>

theorem update_match_score_frame:
  "list_all2 same_but_score (matches d)
     (matches (snd (update_match_score S now match_id home_score away_score status d))) \<and>
   seasons (snd (update_match_score S now match_id home_score away_score status d)) = seasons d \<and>
   teams (snd (update_match_score S now match_id home_score away_score status d)) = teams d \<and>
   competitions (snd (update_match_score S now match_id home_score away_score status d))
     = competitions d \<and>
   match_statistics (snd (update_match_score S now match_id home_score away_score status d))
     = match_statistics d"
proof (cases "update_where (\<lambda>r. m_id r = match_id)
             (\<lambda>r. r\<lparr>m_home_score := home_score,
                     m_away_score := away_score,
                     m_match_status := status,
                     m_updated_at := now\<rparr>)
             (match_ok S) (matches d)")
  case None
  then show ?thesis
    by (simp add: update_match_score_def db_failed_def log_line_def list_all2_same
          same_but_score_refl)
next
  case (Some rows)
  then have rows: "rows = map (\<lambda>r. if m_id r = match_id
                     then r\<lparr>m_home_score := home_score, m_away_score := away_score,
                            m_match_status := status, m_updated_at := now\<rparr>
                     else r) (matches d)"
    by (simp add: update_where_def split: if_splits)
  have "list_all2 same_but_score (matches d) rows"
    unfolding rows by (rule list_all2_map_right) (simp add: same_but_score_def)
  with Some show ?thesis
    by (simp add: update_match_score_def log_line_def)
qed

lemma update_match_score_writes:
  assumes "update_match_score S now match_id home_score away_score status d = (Inr u, d')"
  shows "matches d' =
           map (\<lambda>r. if m_id r = match_id
                     then r\<lparr>m_home_score := home_score, m_away_score := away_score,
                            m_match_status := status, m_updated_at := now\<rparr>
                     else r) (matches d)"
  using assms
  by (auto simp: update_match_score_def update_where_def db_failed_def log_line_def
        split: option.splits if_splits)

section \<open>Properties of the pipeline\<close>

lemma upsert_Some:
  "upsert conflicts merge new ok rows = Some rows' \<Longrightarrow>
     rows' = (if list_ex conflicts rows
              then map (\<lambda>r. if conflicts r then merge r else r) rows
              else rows @ [new])"
  by (auto simp: upsert_def split: if_splits)

lemma filter_map_keep:
  assumes "\<And>x. P (f x) = P x" and "\<And>x. P x \<Longrightarrow> f x = x"
  shows "filter P (map f xs) = filter P xs"
  using assms by (induction xs) auto

lemma bindS_Pair:
  "bindS m f = (r, d') \<Longrightarrow>
     (\<exists>e. m = (Inl e, d') \<and> r = Inl e) \<or> (\<exists>x d1. m = (Inr x, d1) \<and> f x d1 = (r, d'))"
  by (cases m) (auto simp: bindS_def split: sum.splits)

lemma add_season_frame:
  assumes "add_season S nm sd ed d = (res, d')"
  shows "matches d' = matches d \<and> teams d' = teams d \<and> competitions d' = competitions d \<and>
         match_statistics d' = match_statistics d \<and>
         filter (\<lambda>r. s_name r \<noteq> nm) (seasons d') = filter (\<lambda>r. s_name r \<noteq> nm) (seasons d) \<and>
         warnings d' = warnings d \<and>
         ((\<exists>i. res = Inr i \<and> errors d' = errors d) \<or>
          (\<exists>e. res = Inl e \<and> errors d' = Suc (errors d) \<and> seasons d' = seasons d))"
proof (cases "upsert (\<lambda>r. sql_eq (s_name r) nm)
                (\<lambda>r. r\<lparr>s_start_date := sd, s_end_date := ed\<rparr>)
                \<lparr>s_id = season_seq d, s_name = nm, s_start_date = sd, s_end_date = ed\<rparr>
                (season_ok S) (seasons d)")
  case None
  with assms show ?thesis
    by (auto simp: add_season_def Let_def db_failed_def log_line_def warnings_def errors_def)
next
  case (Some rows)
  have keep: "filter (\<lambda>r. s_name r \<noteq> nm) rows = filter (\<lambda>r. s_name r \<noteq> nm) (seasons d)"
  proof (cases "list_ex (\<lambda>r. sql_eq (s_name r) nm) (seasons d)")
    case True
    have "filter (\<lambda>r. s_name r \<noteq> nm)
            (map (\<lambda>r. if sql_eq (s_name r) nm then r\<lparr>s_start_date := sd, s_end_date := ed\<rparr> else r)
               (seasons d)) = filter (\<lambda>r. s_name r \<noteq> nm) (seasons d)"
      by (rule filter_map_keep) (auto simp: sql_eq_def)
    with True upsert_Some [OF Some] show ?thesis by simp
  next
    case False
    with upsert_Some [OF Some] show ?thesis by simp
  qed
  from assms Some keep show ?thesis
    by (auto simp: add_season_def Let_def log_line_def warnings_def errors_def)
qed

lemma season_year_str: "season_year L nm = Inr y \<Longrightarrow> \<exists>s. nm = JStr s"
  by (cases nm) (simp_all add: season_year_def bindE_def)

lemma resolve_season_frame:
  assumes "resolve_season L S nm d = (res, d')"
  shows "matches d' = matches d \<and> teams d' = teams d \<and> competitions d' = competitions d \<and>
         match_statistics d' = match_statistics d \<and>
         filter (\<lambda>r. s_name r \<noteq> nm) (seasons d') = filter (\<lambda>r. s_name r \<noteq> nm) (seasons d) \<and>
         warnings d' = warnings d \<and>
         ((\<exists>i. res = Inr i \<and> errors d' = errors d) \<or>
          (\<exists>e. res = Inl e \<and> errors d \<le> errors d' \<and> seasons d' = seasons d))"
proof (cases "id_truthy (get_season_id nm d)")
  case True
  with assms show ?thesis by (auto simp: resolve_season_def Let_def)
next
  case False
  show ?thesis
  proof (cases "season_year L nm")
    case (Inl e)
    with assms False show ?thesis by (auto simp: resolve_season_def Let_def)
  next
    case (Inr year)
    obtain r1 d1 where a: "add_season S nm (JStr (str_int year @ ''-08-01''))
                        (JStr (str_int (year + 1) @ ''-05-31'')) d = (r1, d1)"
      by (cases "add_season S nm (JStr (str_int year @ ''-08-01''))
                        (JStr (str_int (year + 1) @ ''-05-31'')) d")
    from assms False Inr a have "d' = d1"
      and "res = (case r1 of Inl e \<Rightarrow> Inl e | Inr i \<Rightarrow> Inr (Some i))"
      by (auto simp: resolve_season_def Let_def bindS_def split: sum.splits)
    with add_season_frame [OF a] show ?thesis by (auto split: sum.splits)
  qed
qed

lemma get_competition_id_cong:
  "competitions d1 = competitions d \<Longrightarrow> get_competition_id nm d1 = get_competition_id nm d"
  by (simp add: get_competition_id_def)

lemma warnings_log_line:
  "warnings (log_line lv msg d) = (if lv = WARNING then Suc (warnings d) else warnings d)"
  "errors (log_line lv msg d) = (if lv = ERROR then Suc (errors d) else errors d)"
  by (simp_all add: warnings_def errors_def log_line_def)

lemma log_line_tables:
  "matches (log_line lv msg d) = matches d" "teams (log_line lv msg d) = teams d"
  "competitions (log_line lv msg d) = competitions d"
  "match_statistics (log_line lv msg d) = match_statistics d"
  "seasons (log_line lv msg d) = seasons d"
  by (simp_all add: log_line_def)

lemma store_in_season_unknown:
  assumes "get_competition_id (dict_get_default match_data ''competition'' (JStr ''Unknown'')) d1
             = None"
  shows "store_in_season L S now match_data source season_id d1 =
           (Inr (), log_line WARNING ''Competition not found'' d1)"
  unfolding store_in_season_def Let_def assms id_truthy_def
  by (simp only: option.case if_True not_False_eq_True)

lemma store_match_unknown_result:
  assumes comp: "get_competition_id
                   (dict_get_default match_data ''competition'' (JStr ''Unknown'')) d = None"
      and r: "resolve_season L S (dict_get_default match_data ''season'' (JStr current_season)) d
                = (res, d1)"
  shows "store_match L S now current_season match_data source d =
           (case res of
              Inl e \<Rightarrow> log_line ERROR ''Error storing match'' d1
            | Inr i \<Rightarrow> log_line WARNING ''Competition not found'' d1)"
proof -
  have body: "store_match_body L S now current_season match_data source d =
                bindS (res, d1) (store_in_season L S now match_data source)"
    unfolding store_match_body_def Let_def r ..
  from resolve_season_frame [OF r] have "competitions d1 = competitions d"
    by (rule conjunct2 [THEN conjunct2, THEN conjunct1])
  from comp have "get_competition_id
        (dict_get_default match_data ''competition'' (JStr ''Unknown'')) d1 = None"
    unfolding get_competition_id_cong [OF \<open>competitions d1 = competitions d\<close>] .
  note skip = store_in_season_unknown [OF this]
  show ?thesis
  proof (cases res)
    case (Inl e)
    show ?thesis unfolding store_match_def body Inl bindS_def by simp
  next
    case (Inr i)
    show ?thesis unfolding store_match_def body Inr bindS_def by (simp add: skip)
  qed
qed

lemma resolve_season_exact:
  "resolve_season L S nm d =
     (if id_truthy (get_season_id nm d) then (Inr (get_season_id nm d), d)
      else
        (case season_year L nm of
           Inl e \<Rightarrow> (Inl e, d)
         | Inr year \<Rightarrow>
             (case upsert (\<lambda>r. sql_eq (s_name r) nm)
                     (\<lambda>r. r\<lparr>s_start_date := JStr (str_int year @ ''-08-01''),
                             s_end_date := JStr (str_int (year + 1) @ ''-05-31'')\<rparr>)
                     \<lparr>s_id = season_seq d, s_name = nm,
                      s_start_date = JStr (str_int year @ ''-08-01''),
                      s_end_date = JStr (str_int (year + 1) @ ''-05-31'')\<rparr>
                     (season_ok S) (seasons d) of
                None \<Rightarrow>
                  (Inl DatabaseError,
                   log_line ERROR ''Database operation failed''
                     (d\<lparr>season_seq := Suc (season_seq d)\<rparr>))
              | Some rows \<Rightarrow>
                  (Inr (Some (returned_id (\<lambda>r. sql_eq (s_name r) nm) s_id (season_seq d)
                                (seasons d))),
                   log_line INFO ''Added/updated season''
                     (d\<lparr>season_seq := Suc (season_seq d), seasons := rows\<rparr>)))))"
  by (simp add: resolve_season_def add_season_def Let_def bindS_def db_failed_def
        split: sum.splits option.splits)

lemma log_counts_seq:
  "warnings (d\<lparr>season_seq := n\<rparr>) = warnings d" "errors (d\<lparr>season_seq := n\<rparr>) = errors d"
  "warnings (d\<lparr>season_seq := n, seasons := rows\<rparr>) = warnings d"
  "errors (d\<lparr>season_seq := n, seasons := rows\<rparr>) = errors d"
  by (simp_all add: warnings_def errors_def)

text \<open>
  C4, as the code has it: for a match record whose competition name has no Competition
  row, \<^verbatim>\<open>_store_match\<close> writes no Match row and leaves the teams, the competitions and the
  match statistics as they were. The season is resolved before the competition is looked
  up, and what the store is afterwards depends on that alone:

  \<^item> the season label has a row with a non-zero id: the store is as it was, with the one
    warning of the skip logged;
  \<^item> it has none and the label does not start with an integer: the store is as it was,
    with one error logged and no warning;
  \<^item> it has none and the season table refuses the statement of \<^verbatim>\<open>add_season\<close>: the
    season sequence has advanced, two errors are logged, no warning, and the seasons are
    as they were;
  \<^item> it has none and the statement is accepted: the season sequence has advanced, the
    seasons are the old rows followed by the new row of that label, from 1 August of the
    year to 31 May of the next (or, where a row of that label with id 0 was there, the
    old rows with the dates of those rows rewritten), and the insert and the one warning
    of the skip are logged, no error.
\<close>

theorem store_match_unknown_competition:
  assumes "get_competition_id (dict_get_default match_data ''competition'' (JStr ''Unknown'')) d
             = None"
      and "d' = store_match L S now current_season match_data source d"
      and "season_name = dict_get_default match_data ''season'' (JStr current_season)"
  shows "matches d' = matches d \<and> teams d' = teams d \<and> competitions d' = competitions d \<and>
         match_statistics d' = match_statistics d \<and>
         (id_truthy (get_season_id season_name d) \<longrightarrow>
            d' = log_line WARNING ''Competition not found'' d \<and>
            seasons d' = seasons d \<and> warnings d' = Suc (warnings d) \<and> errors d' = errors d) \<and>
         (\<not> id_truthy (get_season_id season_name d) \<longrightarrow>
            (\<forall>e. season_year L season_name = Inl e \<longrightarrow>
               d' = log_line ERROR ''Error storing match'' d \<and>
               seasons d' = seasons d \<and> warnings d' = warnings d \<and>
               errors d' = Suc (errors d)) \<and>
            (\<forall>year res. season_year L season_name = Inr year \<longrightarrow>
               upsert (\<lambda>r. sql_eq (s_name r) season_name)
                 (\<lambda>r. r\<lparr>s_start_date := JStr (str_int year @ ''-08-01''),
                         s_end_date := JStr (str_int (year + 1) @ ''-05-31'')\<rparr>)
                 \<lparr>s_id = season_seq d, s_name = season_name,
                  s_start_date = JStr (str_int year @ ''-08-01''),
                  s_end_date = JStr (str_int (year + 1) @ ''-05-31'')\<rparr>
                 (season_ok S) (seasons d) = res \<longrightarrow>
               (res = None \<longrightarrow>
                  d' = log_line ERROR ''Error storing match''
                         (log_line ERROR ''Database operation failed''
                            (d\<lparr>season_seq := Suc (season_seq d)\<rparr>)) \<and>
                  seasons d' = seasons d \<and> warnings d' = warnings d \<and>
                  errors d' = Suc (Suc (errors d))) \<and>
               (\<forall>rows. res = Some rows \<longrightarrow>
                  d' = log_line WARNING ''Competition not found''
                         (log_line INFO ''Added/updated season''
                            (d\<lparr>season_seq := Suc (season_seq d), seasons := rows\<rparr>)) \<and>
                  rows =
                    (if list_ex (\<lambda>r. sql_eq (s_name r) season_name) (seasons d)
                     then map (\<lambda>r. if sql_eq (s_name r) season_name
                                    then r\<lparr>s_start_date := JStr (str_int year @ ''-08-01''),
                                           s_end_date := JStr (str_int (year + 1) @ ''-05-31'')\<rparr>
                                    else r) (seasons d)
                     else seasons d @
                            [\<lparr>s_id = season_seq d, s_name = season_name,
                              s_start_date = JStr (str_int year @ ''-08-01''),
                              s_end_date = JStr (str_int (year + 1) @ ''-05-31'')\<rparr>]) \<and>
                  seasons d' = rows \<and> warnings d' = Suc (warnings d) \<and>
                  errors d' = errors d)))"
proof -
  obtain res d1 where r: "resolve_season L S season_name d = (res, d1)"
    by (cases "resolve_season L S season_name d")
  note fr = resolve_season_frame [OF r]
  note ex = r [unfolded resolve_season_exact]
  have d': "d' = (case res of
              Inl e \<Rightarrow> log_line ERROR ''Error storing match'' d1
            | Inr i \<Rightarrow> log_line WARNING ''Competition not found'' d1)"
    using store_match_unknown_result [OF assms(1) r [unfolded assms(3)]] assms(2) by simp
  have tables: "matches d' = matches d \<and> teams d' = teams d \<and>
      competitions d' = competitions d \<and> match_statistics d' = match_statistics d"
    using fr d' by (cases res) (simp_all add: log_line_tables)
  have found: "d' = log_line WARNING ''Competition not found'' d \<and>
            seasons d' = seasons d \<and> warnings d' = Suc (warnings d) \<and> errors d' = errors d"
    if "id_truthy (get_season_id season_name d)"
    using ex that d' by (auto simp: warnings_log_line log_line_tables)
  have raised: "d' = log_line ERROR ''Error storing match'' d \<and>
               seasons d' = seasons d \<and> warnings d' = warnings d \<and>
               errors d' = Suc (errors d)"
    if "\<not> id_truthy (get_season_id season_name d)" "season_year L season_name = Inl e" for e
    using ex that d' by (auto simp: warnings_log_line log_line_tables)
  have refused: "d' = log_line ERROR ''Error storing match''
                         (log_line ERROR ''Database operation failed''
                            (d\<lparr>season_seq := Suc (season_seq d)\<rparr>)) \<and>
                  seasons d' = seasons d \<and> warnings d' = warnings d \<and>
                  errors d' = Suc (Suc (errors d))"
    if "\<not> id_truthy (get_season_id season_name d)" "season_year L season_name = Inr year"
      "upsert (\<lambda>r. sql_eq (s_name r) season_name)
                 (\<lambda>r. r\<lparr>s_start_date := JStr (str_int year @ ''-08-01''),
                         s_end_date := JStr (str_int (year + 1) @ ''-05-31'')\<rparr>)
                 \<lparr>s_id = season_seq d, s_name = season_name,
                  s_start_date = JStr (str_int year @ ''-08-01''),
                  s_end_date = JStr (str_int (year + 1) @ ''-05-31'')\<rparr>
                 (season_ok S) (seasons d) = None" for year
    using ex that d' by (auto simp: warnings_log_line log_line_tables log_counts_seq)
  have created: "d' = log_line WARNING ''Competition not found''
                         (log_line INFO ''Added/updated season''
                            (d\<lparr>season_seq := Suc (season_seq d), seasons := rows\<rparr>)) \<and>
                  rows =
                    (if list_ex (\<lambda>r. sql_eq (s_name r) season_name) (seasons d)
                     then map (\<lambda>r. if sql_eq (s_name r) season_name
                                    then r\<lparr>s_start_date := JStr (str_int year @ ''-08-01''),
                                           s_end_date := JStr (str_int (year + 1) @ ''-05-31'')\<rparr>
                                    else r) (seasons d)
                     else seasons d @
                            [\<lparr>s_id = season_seq d, s_name = season_name,
                              s_start_date = JStr (str_int year @ ''-08-01''),
                              s_end_date = JStr (str_int (year + 1) @ ''-05-31'')\<rparr>]) \<and>
                  seasons d' = rows \<and> warnings d' = Suc (warnings d) \<and>
                  errors d' = errors d"
    if "\<not> id_truthy (get_season_id season_name d)" "season_year L season_name = Inr year"
      "upsert (\<lambda>r. sql_eq (s_name r) season_name)
                 (\<lambda>r. r\<lparr>s_start_date := JStr (str_int year @ ''-08-01''),
                         s_end_date := JStr (str_int (year + 1) @ ''-05-31'')\<rparr>)
                 \<lparr>s_id = season_seq d, s_name = season_name,
                  s_start_date = JStr (str_int year @ ''-08-01''),
                  s_end_date = JStr (str_int (year + 1) @ ''-05-31'')\<rparr>
                 (season_ok S) (seasons d) = Some rows" for year rows
  proof -
    from ex that d' have "d' = log_line WARNING ''Competition not found''
                         (log_line INFO ''Added/updated season''
                            (d\<lparr>season_seq := Suc (season_seq d), seasons := rows\<rparr>))"
      by auto
    moreover note upsert_Some [OF that(3)]
    ultimately show ?thesis
      by (simp add: warnings_log_line log_line_tables log_counts_seq)
  qed
  from tables found raised refused created show ?thesis by blast
qed

theorem store_match_unknown_competition_counterexample:
  "get_competition_id (dict_get_default fd_record ''competition'' (JStr ''Unknown'')) fresh_db
     = None \<and>
   seasons fresh_db = [] \<and>
   seasons (store_match plain_lib keyed_schema one_am ''2023/24'' fd_record ''football_data''
              fresh_db) =
     [\<lparr>s_id = 1, s_name = JStr ''2023/24'', s_start_date = JStr ''2023-08-01'',
       s_end_date = JStr ''2024-05-31''\<rparr>]"
  by code_simp

theorem store_match_unknown_competition_witness:
  "get_competition_id (dict_get_default fd_record ''competition'' (JStr ''Unknown'')) fresh_db
     = None \<and>
   \<not> id_truthy (get_season_id (JStr ''2023/24'') fresh_db) \<and>
   season_year plain_lib (JStr ''2023/24'') = Inr 2023 \<and>
   store_match plain_lib keyed_schema one_am ''2023/24'' fd_record ''football_data'' fresh_db =
     log_line WARNING ''Competition not found''
       (log_line INFO ''Added/updated season''
          (fresh_db\<lparr>season_seq := 2,
                    seasons := [\<lparr>s_id = 1, s_name = JStr ''2023/24'',
                                 s_start_date = JStr ''2023-08-01'',
                                 s_end_date = JStr ''2024-05-31''\<rparr>]\<rparr>))"
proof -
  have c: "get_competition_id (dict_get_default fd_record ''competition'' (JStr ''Unknown''))
             fresh_db = None"
    by code_simp
  have sn: "JStr ''2023/24'' = dict_get_default fd_record ''season'' (JStr ''2023/24'')"
    by code_simp
  have nf: "\<not> id_truthy (get_season_id (JStr ''2023/24'') fresh_db)"
    by code_simp
  have sy: "season_year plain_lib (JStr ''2023/24'') = Inr 2023"
    by code_simp
  have up: "upsert (\<lambda>r. sql_eq (s_name r) (JStr ''2023/24''))
              (\<lambda>r. r\<lparr>s_start_date := JStr (str_int 2023 @ ''-08-01''),
                      s_end_date := JStr (str_int (2023 + 1) @ ''-05-31'')\<rparr>)
              \<lparr>s_id = season_seq fresh_db, s_name = JStr ''2023/24'',
               s_start_date = JStr (str_int 2023 @ ''-08-01''),
               s_end_date = JStr (str_int (2023 + 1) @ ''-05-31'')\<rparr>
              (season_ok keyed_schema) (seasons fresh_db) =
            Some [\<lparr>s_id = 1, s_name = JStr ''2023/24'', s_start_date = JStr ''2023-08-01'',
                   s_end_date = JStr ''2024-05-31''\<rparr>]"
    by code_simp
  from store_match_unknown_competition [OF c refl sn, of plain_lib keyed_schema one_am
         "''football_data''"] nf sy up
  have "store_match plain_lib keyed_schema one_am ''2023/24'' fd_record ''football_data''
          fresh_db =
        log_line WARNING ''Competition not found''
          (log_line INFO ''Added/updated season''
             (fresh_db\<lparr>season_seq := Suc (season_seq fresh_db),
                       seasons := [\<lparr>s_id = 1, s_name = JStr ''2023/24'',
                                    s_start_date = JStr ''2023-08-01'',
                                    s_end_date = JStr ''2024-05-31''\<rparr>]\<rparr>))"
    by blast
  moreover have "Suc (season_seq fresh_db) = 2" by (simp add: fresh_db_def)
  ultimately show ?thesis using c nf sy by simp
qed


lemma add_team_matches: "matches (snd (add_team S nm kw d)) = matches d"
  by (simp add: add_team_def Let_def db_failed_def log_line_def del: filter.simps
        split: option.splits)

lemma resolve_team_matches: "matches (snd (resolve_team S nm d)) = matches d"
  by (simp add: resolve_team_def Let_def add_team_matches)

lemma add_match_statistics_matches:
  "matches (snd (add_match_statistics S now i stats d)) = matches d"
  by (simp add: add_match_statistics_def Let_def db_failed_def log_line_def split: option.splits)

lemma store_statistics_matches: "matches (snd (store_statistics S now md i d)) = matches d"
  by (simp add: store_statistics_def Let_def add_match_statistics_matches)

lemma resolve_season_matches: "matches (snd (resolve_season L S nm d)) = matches d"
  by (rule resolve_season_frame [THEN conjunct1]) (rule prod.collapse [symmetric])

lemma snd_bindS:
  "snd (bindS m f) = (case fst m of Inl e \<Rightarrow> snd m | Inr x \<Rightarrow> snd (f x (snd m)))"
  by (cases m) (simp add: bindS_def split: sum.splits)


lemma add_match_rows:
  "matches (snd (add_match S now data d)) = matches d \<or>
   (\<exists>new merge.
      m_home_score new = dict_get data ''home_score'' \<and>
      m_away_score new = dict_get data ''away_score'' \<and>
      m_id new = match_seq d \<and>
      (\<forall>r. m_home_score (merge r) = dict_get data ''home_score'' \<and>
           m_away_score (merge r) = dict_get data ''away_score'') \<and>
      matches (snd (add_match S now data d)) =
        (if list_ex (\<lambda>r. m_id r = match_seq d) (matches d)
         then map (\<lambda>r. if m_id r = match_seq d then merge r else r) (matches d)
         else matches d @ [new]))"
proof -
  let ?new = "new_match_row S now data (match_seq d)"
  let ?merge = "\<lambda>r. r\<lparr>m_home_score := m_home_score ?new,
                        m_away_score := m_away_score ?new,
                        m_match_status := m_match_status ?new,
                        m_attendance := m_attendance ?new,
                        m_updated_at := now\<rparr>"
  show ?thesis
  proof (cases "upsert (\<lambda>r. m_id r = match_seq d) ?merge ?new (match_ok S) (matches d)")
    case None
    then have "matches (snd (add_match S now data d)) = matches d"
      by (simp add: add_match_def Let_def db_failed_def log_line_def)
    then show ?thesis ..
  next
    case (Some rows)
    then have "matches (snd (add_match S now data d)) = rows"
      by (simp add: add_match_def Let_def log_line_def)
    with upsert_Some [OF Some]
    have "matches (snd (add_match S now data d)) =
        (if list_ex (\<lambda>r. m_id r = match_seq d) (matches d)
         then map (\<lambda>r. if m_id r = match_seq d then ?merge r else r) (matches d)
         else matches d @ [?new])"
      by (simp only:)
    moreover have "m_home_score ?new = dict_get data ''home_score''"
      "m_away_score ?new = dict_get data ''away_score''" "m_id ?new = match_seq d"
      "\<forall>r. m_home_score (?merge r) = dict_get data ''home_score'' \<and>
           m_away_score (?merge r) = dict_get data ''away_score''"
      by (simp_all add: new_match_row_def)
    ultimately show ?thesis by (intro disjI2 exI [of _ ?new] exI [of _ ?merge] conjI)
  qed
qed

lemma add_match_pairs:
  assumes "list_all score_pair_ok (matches d)"
      and "pair_ok (dict_get data ''home_score'') (dict_get data ''away_score'')"
  shows "list_all score_pair_ok (matches (snd (add_match S now data d)))"
  using add_match_rows [of S now data d] assms
  by (auto simp: list_all_iff score_pair_ok_def split: if_splits)

lemma update_match_score_pairs:
  assumes "list_all score_pair_ok (matches d)" and "pair_ok home away"
  shows "list_all score_pair_ok (matches (snd (update_match_score S now i home away st d)))"
proof (cases "update_where (\<lambda>r. m_id r = i)
             (\<lambda>r. r\<lparr>m_home_score := home, m_away_score := away,
                     m_match_status := st, m_updated_at := now\<rparr>)
             (match_ok S) (matches d)")
  case None
  then show ?thesis using assms(1)
    by (simp add: update_match_score_def db_failed_def log_line_def)
next
  case (Some rows)
  then have "rows = map (\<lambda>r. if m_id r = i
                     then r\<lparr>m_home_score := home, m_away_score := away,
                            m_match_status := st, m_updated_at := now\<rparr>
                     else r) (matches d)"
    by (simp add: update_where_def split: if_splits)
  with assms have "list_all score_pair_ok rows"
    by (auto simp: list_all_iff score_pair_ok_def)
  with Some show ?thesis
    by (simp add: update_match_score_def log_line_def)
qed

lemma db_match_data_scores:
  "dict_get (db_match_data L md source a b c e) ''home_score'' = dict_get md ''home_score''"
  "dict_get (db_match_data L md source a b c e) ''away_score'' = dict_get md ''away_score''"
  by (simp_all add: db_match_data_def Let_def dict_get_dict_set dict_get_Cons
        del: dict_set.simps)

lemma store_in_season_pairs:
  assumes "list_all score_pair_ok (matches d1)"
      and "pair_ok (dict_get md ''home_score'') (dict_get md ''away_score'')"
  shows "list_all score_pair_ok (matches (snd (store_in_season L S now md source sid d1)))"
  using assms
  by (simp add: store_in_season_def Let_def snd_bindS log_line_tables resolve_team_matches
        store_statistics_matches add_match_pairs db_match_data_scores
        split: sum.splits)

lemma matches_store_match:
  "matches (store_match L S now cs md source d) = matches (snd (store_match_body L S now cs md source d))"
  by (cases "store_match_body L S now cs md source d")
     (simp add: store_match_def log_line_tables split: sum.splits)

lemma store_match_pairs:
  assumes "list_all score_pair_ok (matches d)"
      and "pair_ok (dict_get md ''home_score'') (dict_get md ''away_score'')"
  shows "list_all score_pair_ok (matches (store_match L S now cs md source d))"
  using assms
  by (simp add: matches_store_match store_match_body_def Let_def snd_bindS
        resolve_season_matches store_in_season_pairs split: sum.splits)

lemma matches_update_match_from_api:
  "matches (update_match_from_api S now md source d) =
     matches (snd (update_match_from_api_body S now md source d))"
  by (cases "update_match_from_api_body S now md source d")
     (simp add: update_match_from_api_def log_line_tables split: sum.splits)

lemma update_match_from_api_pairs:
  assumes "list_all score_pair_ok (matches d)"
  shows "list_all score_pair_ok (matches (update_match_from_api S now md source d))"
  using assms
  by (simp add: matches_update_match_from_api update_match_from_api_body_def Let_def snd_bindS
        log_line_tables add_match_statistics_matches update_match_score_pairs pair_ok_def
        del: filter.simps split: sum.splits list.splits)

lemma parse_match_fd: "parse_match plain_lib fd_match False = Some fd_record"
  by code_simp

lemma parse_event_one_sided:
  "parse_event plain_lib (2024, 1, 1) one_sided_event False = Some one_sided_record"
  by code_simp

lemma add_match_appends:
  assumes "\<forall>r \<in> set (matches d). m_id r < match_seq d"
  shows "matches (snd (add_match S now data d)) = matches d \<or>
         (\<exists>new. m_id new = match_seq d \<and>
                matches (snd (add_match S now data d)) = matches d @ [new])"
proof -
  from assms have "\<not> list_ex (\<lambda>r. m_id r = match_seq d) (matches d)"
    by (auto simp: list_ex_iff)
  with add_match_rows [of S now data d] show ?thesis by auto
qed

lemma upsert_lookup:
  assumes "upsert c m new ok rows = Some rows'"
      and "\<And>r. c (m r) = c r" and "\<And>r. ident (m r) = ident r"
      and "c new" and "ident new = new_id"
  shows "(case filter c rows' of [] \<Rightarrow> None | r # rest \<Rightarrow> Some (ident r)) =
           Some (returned_id c ident new_id rows)"
proof (cases "list_ex c rows")
  case True
  with upsert_Some [OF assms(1)]
  have rows': "rows' = map (\<lambda>r. if c r then m r else r) rows" by simp
  have "filter c rows' = map (\<lambda>r. if c r then m r else r) (filter c rows)"
    unfolding rows' filter_map by (simp add: comp_def assms(2) cong: if_cong)
  moreover from True obtain r rest where "filter c rows = r # rest"
    by (cases "filter c rows") (auto simp: list_ex_iff filter_empty_conv)
  ultimately show ?thesis by (simp add: returned_id_def assms(3))
next
  case False
  with upsert_Some [OF assms(1)] have rows': "rows' = rows @ [new]" by simp
  from False have "filter c rows = []" by (auto simp: list_ex_iff filter_empty_conv)
  then show ?thesis by (simp add: rows' returned_id_def assms(4,5))
qed

lemma upsert_lookup_kept:
  assumes "upsert c m new ok rows = Some rows'"
      and "\<And>r. p (m r) = p r" and "\<And>r. ident (m r) = ident r"
      and "(case filter p rows of [] \<Rightarrow> None | r # rest \<Rightarrow> Some (ident r)) = Some k"
  shows "(case filter p rows' of [] \<Rightarrow> None | r # rest \<Rightarrow> Some (ident r)) = Some k"
proof -
  from assms(4) obtain r rest where f: "filter p rows = r # rest" and k: "ident r = k"
    by (cases "filter p rows") auto
  show ?thesis
  proof (cases "list_ex c rows")
    case True
    with upsert_Some [OF assms(1)]
    have rows': "rows' = map (\<lambda>r. if c r then m r else r) rows" by simp
    have "filter p rows' = map (\<lambda>r. if c r then m r else r) (filter p rows)"
      unfolding rows' filter_map by (simp add: comp_def assms(2) cong: if_cong)
    with f k show ?thesis by (simp add: assms(3))
  next
    case False
    with upsert_Some [OF assms(1)] have rows': "rows' = rows @ [new]" by simp
    with f k show ?thesis by simp
  qed
qed

lemma returned_id_found:
  "(case filter c rows of [] \<Rightarrow> None | r # rest \<Rightarrow> Some (ident r)) = Some k \<Longrightarrow>
     returned_id c ident j rows = k"
  by (simp add: returned_id_def split: list.splits)

lemma resolve_season_found:
  assumes "resolve_season L S nm d = (Inr sid, d1)"
  shows "sid \<noteq> None \<and> get_season_id nm d1 = sid"
proof (cases "id_truthy (get_season_id nm d)")
  case True
  with assms show ?thesis
    by (auto simp: resolve_season_exact id_truthy_def split: option.splits)
next
  case False
  with assms obtain year where y: "season_year L nm = Inr year"
    by (cases "season_year L nm") (auto simp: resolve_season_exact)
  from season_year_str [OF y] have nm: "nm \<noteq> JNull" by auto
  let ?c = "\<lambda>r. sql_eq (s_name r) nm"
  let ?m = "\<lambda>r. r\<lparr>s_start_date := JStr (str_int year @ ''-08-01''),
                   s_end_date := JStr (str_int (year + 1) @ ''-05-31'')\<rparr>"
  let ?new = "\<lparr>s_id = season_seq d, s_name = nm,
               s_start_date = JStr (str_int year @ ''-08-01''),
               s_end_date = JStr (str_int (year + 1) @ ''-05-31'')\<rparr>"
  from assms False y obtain rows where
    u: "upsert ?c ?m ?new (season_ok S) (seasons d) = Some rows"
    and sid: "sid = Some (returned_id ?c s_id (season_seq d) (seasons d))"
    and d1: "d1 = log_line INFO ''Added/updated season''
                   (d\<lparr>season_seq := Suc (season_seq d), seasons := rows\<rparr>)"
    by (cases "upsert ?c ?m ?new (season_ok S) (seasons d)") (auto simp: resolve_season_exact)
  have "(case filter ?c rows of [] \<Rightarrow> None | r # rest \<Rightarrow> Some (s_id r)) =
          Some (returned_id ?c s_id (season_seq d) (seasons d))"
    by (rule upsert_lookup [OF u]) (simp_all add: sql_eq_def nm)
  then show ?thesis by (simp add: sid d1 get_season_id_def log_line_def)
qed

lemma resolve_season_again:
  assumes "get_season_id nm e = sid" and "sid \<noteq> None"
      and "resolve_season L S nm e = (Inr sid', e1)"
  shows "sid' = sid"
proof (cases "id_truthy (get_season_id nm e)")
  case True
  with assms show ?thesis by (auto simp: resolve_season_exact)
next
  case False
  from assms(1,2) obtain k where k: "get_season_id nm e = Some k" and sid: "sid = Some k"
    by auto
  from k have "returned_id (\<lambda>r. sql_eq (s_name r) nm) s_id (season_seq e) (seasons e) = k"
    unfolding get_season_id_def by (rule returned_id_found)
  with assms(3) False sid show ?thesis
    by (auto simp: resolve_season_exact split: sum.splits option.splits)
qed

lemma add_team_plain:
  "add_team S t [] d =
     (case upsert (\<lambda>r. sql_eq (t_name r) t)
             (\<lambda>r. r\<lparr>t_cols := dict_update (t_cols r) [(''country'', JStr ''England'')]\<rparr>)
             \<lparr>t_id = team_seq d, t_name = t, t_cols = [(''country'', JStr ''England'')]\<rparr>
             (team_ok S) (teams d) of
        None \<Rightarrow> db_failed (d\<lparr>team_seq := Suc (team_seq d)\<rparr>)
      | Some rows \<Rightarrow>
          (Inr (Some (returned_id (\<lambda>r. sql_eq (t_name r) t) t_id (team_seq d) (teams d))),
           log_line INFO ''Added/updated team''
             (d\<lparr>team_seq := Suc (team_seq d), teams := rows\<rparr>)))"
  by (simp add: add_team_def Let_def dict_get_def dict_get_default_def)

lemma resolve_team_exact:
  "resolve_team S t d =
     (if id_truthy (get_team_id t d) then (Inr (get_team_id t d), d) else add_team S t [] d)"
  by (simp add: resolve_team_def Let_def)

lemma resolve_team_frame:
  assumes "resolve_team S t d = (res, d')"
  shows "seasons d' = seasons d \<and> competitions d' = competitions d \<and>
         matches d' = matches d \<and> match_seq d' = match_seq d"
  using assms
  by (auto simp: resolve_team_exact add_team_plain db_failed_def log_line_def
        split: if_splits option.splits)

lemma resolve_team_found:
  assumes "resolve_team S t d = (Inr tid, d')" and "t \<noteq> JNull"
  shows "tid \<noteq> None \<and> get_team_id t d' = tid"
proof (cases "id_truthy (get_team_id t d)")
  case True
  with assms show ?thesis
    by (auto simp: resolve_team_exact id_truthy_def split: option.splits)
next
  case False
  let ?c = "\<lambda>r. sql_eq (t_name r) t"
  let ?m = "\<lambda>r. r\<lparr>t_cols := dict_update (t_cols r) [(''country'', JStr ''England'')]\<rparr>"
  let ?new = "\<lparr>t_id = team_seq d, t_name = t, t_cols = [(''country'', JStr ''England'')]\<rparr>"
  from assms(1) False obtain rows where
    u: "upsert ?c ?m ?new (team_ok S) (teams d) = Some rows"
    and tid: "tid = Some (returned_id ?c t_id (team_seq d) (teams d))"
    and d': "d' = log_line INFO ''Added/updated team''
                   (d\<lparr>team_seq := Suc (team_seq d), teams := rows\<rparr>)"
    by (cases "upsert ?c ?m ?new (team_ok S) (teams d)")
       (auto simp: resolve_team_exact add_team_plain db_failed_def)
  have "(case filter ?c rows of [] \<Rightarrow> None | r # rest \<Rightarrow> Some (t_id r)) =
          Some (returned_id ?c t_id (team_seq d) (teams d))"
    by (rule upsert_lookup [OF u]) (simp_all add: sql_eq_def assms(2))
  then show ?thesis by (simp add: tid d' get_team_id_def log_line_def)
qed

lemma resolve_team_again:
  assumes "get_team_id t e = tid" and "tid \<noteq> None"
      and "resolve_team S t e = (Inr tid', e1)"
  shows "tid' = tid"
proof (cases "id_truthy (get_team_id t e)")
  case True
  with assms show ?thesis by (auto simp: resolve_team_exact)
next
  case False
  from assms(1,2) obtain k where k: "get_team_id t e = Some k" and tid: "tid = Some k"
    by auto
  from k have "returned_id (\<lambda>r. sql_eq (t_name r) t) t_id (team_seq e) (teams e) = k"
    unfolding get_team_id_def by (rule returned_id_found)
  with assms(3) False tid show ?thesis
    by (auto simp: resolve_team_exact add_team_plain db_failed_def split: option.splits)
qed

lemma resolve_team_kept:
  assumes "resolve_team S t' e = (res, e1)" and "get_team_id t e = Some k"
  shows "get_team_id t e1 = Some k"
proof (cases "id_truthy (get_team_id t' e)")
  case True
  with assms show ?thesis by (auto simp: resolve_team_exact)
next
  case False
  let ?c = "\<lambda>r. sql_eq (t_name r) t'"
  let ?m = "\<lambda>r. r\<lparr>t_cols := dict_update (t_cols r) [(''country'', JStr ''England'')]\<rparr>"
  let ?new = "\<lparr>t_id = team_seq e, t_name = t', t_cols = [(''country'', JStr ''England'')]\<rparr>"
  show ?thesis
  proof (cases "upsert ?c ?m ?new (team_ok S) (teams e)")
    case None
    with assms False show ?thesis
      by (auto simp: resolve_team_exact add_team_plain db_failed_def log_line_def
            get_team_id_def)
  next
    case (Some rows)
    with assms(1) False have e1: "e1 = log_line INFO ''Added/updated team''
                   (e\<lparr>team_seq := Suc (team_seq e), teams := rows\<rparr>)"
      by (auto simp: resolve_team_exact add_team_plain)
    have "(case filter (\<lambda>r. sql_eq (t_name r) t) rows of [] \<Rightarrow> None
             | r # rest \<Rightarrow> Some (t_id r)) = Some k"
      by (rule upsert_lookup_kept [OF Some]) (simp_all add: assms(2) [unfolded get_team_id_def])
    then show ?thesis by (simp add: e1 get_team_id_def log_line_def)
  qed
qed

lemma resolve_season_match_seq:
  assumes "resolve_season L S nm d = (res, d1)"
  shows "match_seq d1 = match_seq d"
  using assms
  by (auto simp: resolve_season_exact log_line_def split: if_splits sum.splits option.splits)

lemma add_match_exact:
  "add_match S now data d =
     (case upsert (\<lambda>r. m_id r = match_seq d)
             (\<lambda>r. r\<lparr>m_home_score := m_home_score (new_match_row S now data (match_seq d)),
                     m_away_score := m_away_score (new_match_row S now data (match_seq d)),
                     m_match_status := m_match_status (new_match_row S now data (match_seq d)),
                     m_attendance := m_attendance (new_match_row S now data (match_seq d)),
                     m_updated_at := now\<rparr>)
             (new_match_row S now data (match_seq d)) (match_ok S) (matches d) of
        None \<Rightarrow> db_failed (d\<lparr>match_seq := Suc (match_seq d)\<rparr>)
      | Some rows \<Rightarrow>
          (Inr (match_seq d),
           log_line INFO ''Added match ID''
             (d\<lparr>match_seq := Suc (match_seq d), matches := rows\<rparr>)))"
  by (simp add: add_match_def Let_def)

lemma add_match_fresh:
  assumes "ids_below_seq d"
  shows "add_match S now data d =
           (if match_ok S (matches d) (new_match_row S now data (match_seq d))
            then (Inr (match_seq d),
                  log_line INFO ''Added match ID''
                    (d\<lparr>match_seq := Suc (match_seq d),
                       matches := matches d @ [new_match_row S now data (match_seq d)]\<rparr>))
            else db_failed (d\<lparr>match_seq := Suc (match_seq d)\<rparr>))"
proof -
  from assms have "\<not> list_ex (\<lambda>r. m_id r = match_seq d) (matches d)"
    by (auto simp: ids_below_seq_def list_ex_iff list_all_iff)
  then show ?thesis by (simp add: add_match_exact upsert_def)
qed

lemma add_match_frame:
  assumes "add_match S now data d = (res, d')"
  shows "seasons d' = seasons d \<and> teams d' = teams d \<and> competitions d' = competitions d \<and>
         match_seq d' = Suc (match_seq d)"
  using assms
  by (auto simp: add_match_exact db_failed_def log_line_def split: option.splits)

lemma add_match_failed:
  assumes "add_match S now data d = (Inl e, d')"
  shows "matches d' = matches d"
  using assms
  by (auto simp: add_match_exact db_failed_def log_line_def split: option.splits)

lemma store_statistics_frame:
  assumes "store_statistics S now md mid d = (res, d')"
  shows "seasons d' = seasons d \<and> teams d' = teams d \<and> competitions d' = competitions d \<and>
         matches d' = matches d \<and> match_seq d' = match_seq d"
  using assms
  by (auto simp: store_statistics_def add_match_statistics_def Let_def db_failed_def log_line_def
        split: if_splits option.splits)

lemma store_match_trace:
  assumes nm: "nm = dict_get_default md ''season'' (JStr cs)"
      and cn: "cn = dict_get_default md ''competition'' (JStr ''Unknown'')"
      and home: "home = dict_get md ''home_team''" and away: "away = dict_get md ''away_team''"
      and once: "once = store_match L S now cs md source d"
  shows "matches once = matches d \<and> match_seq d \<le> match_seq once \<or>
         (\<exists>sid d1 hid d2 aid d3 mid d4.
            resolve_season L S nm d = (Inr sid, d1) \<and>
            id_truthy (get_competition_id cn d1) \<and> truthy home \<and> truthy away \<and>
            resolve_team S home d1 = (Inr hid, d2) \<and>
            resolve_team S away d2 = (Inr aid, d3) \<and>
            add_match S now (db_match_data L md source sid (get_competition_id cn d1) hid aid) d3
              = (Inr mid, d4) \<and>
            seasons once = seasons d4 \<and> teams once = teams d4 \<and>
            competitions once = competitions d4 \<and> matches once = matches d4 \<and>
            match_seq once = match_seq d4)"
proof -
  obtain r1 d1 where rs: "resolve_season L S nm d = (r1, d1)"
    by (cases "resolve_season L S nm d")
  from resolve_season_frame [OF rs] resolve_season_match_seq [OF rs]
  have f1: "matches d1 = matches d" "match_seq d1 = match_seq d" by simp_all
  have sm: "once = (case bindS (r1, d1) (store_in_season L S now md source) of
                      (Inl e, d') \<Rightarrow> log_line ERROR ''Error storing match'' d'
                    | (Inr u, d') \<Rightarrow> d')"
    unfolding once store_match_def store_match_body_def Let_def rs [unfolded nm] ..
  show ?thesis
  proof (cases r1)
    case (Inl e)
    with sm have "once = log_line ERROR ''Error storing match'' d1" by (simp add: bindS_def)
    with f1 show ?thesis by (simp add: log_line_def)
  next
    case (Inr sid)
    obtain r d5 where si: "store_in_season L S now md source sid d1 = (r, d5)"
      by (cases "store_in_season L S now md source sid d1")
    with sm Inr have "once = (case r of Inl e \<Rightarrow> log_line ERROR ''Error storing match'' d5
                              | Inr u \<Rightarrow> d5)"
      by (simp add: bindS_def split: sum.splits)
    then have fin: "seasons once = seasons d5" "teams once = teams d5"
      "competitions once = competitions d5" "matches once = matches d5"
      "match_seq once = match_seq d5"
      by (simp_all add: log_line_def split: sum.splits)
    show ?thesis
    proof (cases "id_truthy (get_competition_id cn d1) \<and> truthy home \<and> truthy away")
      case False
      with si have "d5 = log_line WARNING ''Competition not found'' d1 \<or>
                    d5 = log_line WARNING ''Missing team information'' d1"
        unfolding store_in_season_def Let_def cn [symmetric] home [symmetric] away [symmetric]
        by (auto split: if_splits)
      with fin f1 show ?thesis by (auto simp: log_line_def)
    next
      case True
      with si have "bindS (resolve_team S home d1) (\<lambda>home_team_id d2.
               bindS (resolve_team S away d2) (\<lambda>away_team_id d3.
               bindS (add_match S now
                        (db_match_data L md source sid (get_competition_id cn d1)
                           home_team_id away_team_id) d3) (\<lambda>match_id d4.
                 store_statistics S now md match_id d4))) = (r, d5)"
        unfolding store_in_season_def Let_def cn [symmetric] home [symmetric] away [symmetric]
        by simp
      from bindS_Pair [OF this] show ?thesis
      proof (elim disjE exE conjE)
        fix e assume "resolve_team S home d1 = (Inl e, d5)"
        from resolve_team_frame [OF this] fin f1 show ?thesis by simp
      next
        fix hid d2
        assume h: "resolve_team S home d1 = (Inr hid, d2)"
          and rest: "bindS (resolve_team S away d2) (\<lambda>away_team_id d3.
               bindS (add_match S now
                        (db_match_data L md source sid (get_competition_id cn d1)
                           hid away_team_id) d3) (\<lambda>match_id d4.
                 store_statistics S now md match_id d4)) = (r, d5)"
        note f2 = resolve_team_frame [OF h]
        from bindS_Pair [OF rest] show ?thesis
        proof (elim disjE exE conjE)
          fix e assume "resolve_team S away d2 = (Inl e, d5)"
          from resolve_team_frame [OF this] f2 fin f1 show ?thesis by simp
        next
          fix aid d3
          assume a: "resolve_team S away d2 = (Inr aid, d3)"
            and rest2: "bindS (add_match S now
                        (db_match_data L md source sid (get_competition_id cn d1)
                           hid aid) d3) (\<lambda>match_id d4.
                 store_statistics S now md match_id d4) = (r, d5)"
          note f3 = resolve_team_frame [OF a]
          from bindS_Pair [OF rest2] show ?thesis
          proof (elim disjE exE conjE)
            fix e
            assume am: "add_match S now
                        (db_match_data L md source sid (get_competition_id cn d1)
                           hid aid) d3 = (Inl e, d5)"
            from add_match_failed [OF am] add_match_frame [OF am] f3 f2 fin f1
            show ?thesis by simp
          next
            fix mid d4
            assume am: "add_match S now
                        (db_match_data L md source sid (get_competition_id cn d1)
                           hid aid) d3 = (Inr mid, d4)"
              and st: "store_statistics S now md mid d4 = (r, d5)"
            from store_statistics_frame [OF st] fin
            have "seasons once = seasons d4 \<and> teams once = teams d4 \<and>
                  competitions once = competitions d4 \<and> matches once = matches d4 \<and>
                  match_seq once = match_seq d4"
              by simp
            with rs [unfolded Inr] True h a am show ?thesis by blast
          qed
        qed
      qed
    qed
  qed
qed

lemma same_match_rows:
  "same_match (new_match_row S now data k) (new_match_row S' now' data k')"
  by (auto simp: same_match_def new_match_row_def sql_eq_def)

lemma truthy_not_null: "truthy v \<Longrightarrow> v \<noteq> JNull"
  by auto

lemma store_match_once:
  assumes nm: "nm = dict_get_default md ''season'' (JStr cs)"
      and cn: "cn = dict_get_default md ''competition'' (JStr ''Unknown'')"
      and home: "home = dict_get md ''home_team''" and away: "away = dict_get md ''away_team''"
      and once: "once = store_match L S now cs md source d"
      and ids: "ids_below_seq d"
  shows "ids_below_seq once \<and>
         (matches once = matches d \<or>
          get_season_id nm once \<noteq> None \<and> get_team_id home once \<noteq> None \<and>
          get_team_id away once \<noteq> None \<and>
          matches once =
            matches d @
              [new_match_row S now
                 (db_match_data L md source (get_season_id nm once) (get_competition_id cn once)
                    (get_team_id home once) (get_team_id away once))
                 (match_seq d)])"
  using store_match_trace [OF nm cn home away once]
proof (elim disjE exE conjE)
  assume "matches once = matches d" "match_seq d \<le> match_seq once"
  with ids show ?thesis by (auto simp: ids_below_seq_def list_all_iff)
next
  fix sid d1 hid d2 aid d3 mid d4
  assume rs: "resolve_season L S nm d = (Inr sid, d1)"
    and th: "truthy home" and ta: "truthy away"
    and h: "resolve_team S home d1 = (Inr hid, d2)"
    and a: "resolve_team S away d2 = (Inr aid, d3)"
    and am: "add_match S now (db_match_data L md source sid (get_competition_id cn d1) hid aid) d3
              = (Inr mid, d4)"
    and fin: "seasons once = seasons d4" "teams once = teams d4"
      "competitions once = competitions d4" "matches once = matches d4"
      "match_seq once = match_seq d4"
  note f1 = resolve_season_frame [OF rs] resolve_season_match_seq [OF rs]
  note f2 = resolve_team_frame [OF h]
  note f3 = resolve_team_frame [OF a]
  note f4 = add_match_frame [OF am]
  from resolve_season_found [OF rs] have sid: "sid \<noteq> None" "get_season_id nm d1 = sid"
    by simp_all
  have "seasons once = seasons d1" using fin f4 f3 f2 by simp
  then have s_once: "get_season_id nm once = sid" using sid(2) by (simp add: get_season_id_def)
  have "competitions once = competitions d1" using fin f4 f3 f2 by simp
  then have c_once: "get_competition_id cn once = get_competition_id cn d1"
    by (simp add: get_competition_id_def)
  from resolve_team_found [OF h truthy_not_null [OF th]]
  have hid: "hid \<noteq> None" "get_team_id home d2 = hid" by simp_all
  then obtain k where "get_team_id home d2 = Some k" "hid = Some k" by auto
  with resolve_team_kept [OF a, of home k] have "get_team_id home d3 = hid" by simp
  moreover from resolve_team_found [OF a truthy_not_null [OF ta]]
  have aid: "aid \<noteq> None" "get_team_id away d3 = aid" by simp_all
  moreover have "teams once = teams d3" using fin f4 by simp
  ultimately have t_once: "get_team_id home once = hid" "get_team_id away once = aid"
    by (simp_all add: get_team_id_def)
  have m3: "matches d3 = matches d" "match_seq d3 = match_seq d" using f3 f2 f1 by simp_all
  with ids have ids3: "ids_below_seq d3" by (simp add: ids_below_seq_def)
  from am [unfolded add_match_fresh [OF ids3]]
  have "matches d4 = matches d3 @
          [new_match_row S now
             (db_match_data L md source sid (get_competition_id cn d1) hid aid) (match_seq d3)]"
    by (auto simp: db_failed_def log_line_def split: if_splits)
  with fin m3 have m_once: "matches once = matches d @
          [new_match_row S now
             (db_match_data L md source sid (get_competition_id cn d1) hid aid) (match_seq d)]"
    by simp
  have "match_seq once = Suc (match_seq d)" using fin f4 m3 by simp
  with ids m_once have "ids_below_seq once"
    by (auto simp: ids_below_seq_def list_all_iff new_match_row_def)
  with m_once sid hid aid show ?thesis
    unfolding s_once c_once t_once by simp
qed

lemma store_match_refused:
  assumes nm: "nm = dict_get_default md ''season'' (JStr cs)"
      and cn: "cn = dict_get_default md ''competition'' (JStr ''Unknown'')"
      and home: "home = dict_get md ''home_team''" and away: "away = dict_get md ''away_team''"
      and uniq: "natural_key_unique S" and ids: "ids_below_seq e"
      and s: "get_season_id nm e \<noteq> None" and th: "get_team_id home e \<noteq> None"
      and ta: "get_team_id away e \<noteq> None"
      and row: "new_match_row S now0
                  (db_match_data L md source (get_season_id nm e) (get_competition_id cn e)
                     (get_team_id home e) (get_team_id away e)) k \<in> set (matches e)"
  shows "matches (store_match L S now cs md source e) = matches e"
  using store_match_trace [OF nm cn home away refl, of L S now source e]
proof (elim disjE exE conjE)
  assume "matches (store_match L S now cs md source e) = matches e"
  then show ?thesis .
next
  fix sid e1 hid e2 aid e3 mid e4
  assume rs: "resolve_season L S nm e = (Inr sid, e1)"
    and h: "resolve_team S home e1 = (Inr hid, e2)"
    and a: "resolve_team S away e2 = (Inr aid, e3)"
    and am: "add_match S now (db_match_data L md source sid (get_competition_id cn e1) hid aid) e3
              = (Inr mid, e4)"
  note f1 = resolve_season_frame [OF rs] resolve_season_match_seq [OF rs]
  note f2 = resolve_team_frame [OF h]
  note f3 = resolve_team_frame [OF a]
  from resolve_season_again [OF refl s rs] have sid: "sid = get_season_id nm e" .
  have "competitions e1 = competitions e" using f1 by simp
  then have comp: "get_competition_id cn e1 = get_competition_id cn e"
    by (simp add: get_competition_id_def)
  have "teams e1 = teams e" using f1 by simp
  then have t1: "get_team_id home e1 = get_team_id home e"
    "get_team_id away e1 = get_team_id away e"
    by (simp_all add: get_team_id_def)
  from th t1 have "get_team_id home e1 \<noteq> None" by simp
  from resolve_team_again [OF refl this h] t1 have hid: "hid = get_team_id home e" by simp
  from ta t1 obtain j where "get_team_id away e1 = Some j" by auto
  with resolve_team_kept [OF h, of away j] t1
  have t2: "get_team_id away e2 = get_team_id away e" by simp
  with ta have "get_team_id away e2 \<noteq> None" by simp
  from resolve_team_again [OF refl this a] t2 have aid: "aid = get_team_id away e" by simp
  have m3: "matches e3 = matches e" "match_seq e3 = match_seq e" using f3 f2 f1 by simp_all
  with ids have ids3: "ids_below_seq e3" by (simp add: ids_below_seq_def)
  from am [unfolded add_match_fresh [OF ids3]]
  have "match_ok S (matches e)
          (new_match_row S now
             (db_match_data L md source (get_season_id nm e) (get_competition_id cn e)
                (get_team_id home e) (get_team_id away e)) (match_seq e))"
    unfolding sid comp hid aid m3 by (auto simp: db_failed_def split: if_splits)
  with uniq have "list_all (\<lambda>r. \<not> same_match r
          (new_match_row S now
             (db_match_data L md source (get_season_id nm e) (get_competition_id cn e)
                (get_team_id home e) (get_team_id away e)) (match_seq e))) (matches e)"
    unfolding natural_key_unique_def by blast
  with row have "\<not> same_match (new_match_row S now0
                  (db_match_data L md source (get_season_id nm e) (get_competition_id cn e)
                     (get_team_id home e) (get_team_id away e)) k)
          (new_match_row S now
             (db_match_data L md source (get_season_id nm e) (get_competition_id cn e)
                (get_team_id home e) (get_team_id away e)) (match_seq e))"
    unfolding list_all_iff by blast
  with same_match_rows show ?thesis by blast
qed

text \<open>
  C1: the \<^verbatim>\<open>INSERT\<close> of \<^verbatim>\<open>add_match\<close> does not name the \<^verbatim>\<open>id\<close> column, so the id comes
  from the sequence and, in a store whose match ids were drawn from the sequence, the
  conflict target \<^verbatim>\<open>ON CONFLICT (id)\<close> is not hit: the statement inserts or is refused
  (\<open>add_match_fresh\<close>). What keeps a second row out is the uniqueness constraint of the
  natural key, which the specification gives the table of matches. With that constraint,
  on a store whose match ids were drawn from the sequence, \<^verbatim>\<open>_store_match\<close> writes at most
  one Match row for a record, the row \<open>stored_row\<close> at the end of the table. Once that row
  is written, a second application of the same record, at whatever time, resolves the
  season, the competition and the two teams to the same ids, has its \<^verbatim>\<open>INSERT\<close> refused
  and leaves the match rows exactly as they are: the store holds one row for the record,
  with the values the first application gave it. Where the first application wrote no
  row, the second writes at most the one row. Both applications keep the match ids below
  the sequence.
\<close>

theorem store_match_idempotent:
  assumes "natural_key_unique S" and "ids_below_seq d"
      and "once = store_match L S now current_season match_data source d"
      and "twice = store_match L S later current_season match_data source once"
  shows "(matches once = matches d \<or>
          matches once =
            matches d @ [stored_row L S now current_season match_data source (match_seq d) once]) \<and>
         (matches once \<noteq> matches d \<longrightarrow> matches twice = matches once) \<and>
         (matches once = matches d \<longrightarrow>
            matches twice = matches d \<or>
            matches twice =
              matches d @
                [stored_row L S later current_season match_data source (match_seq once) twice]) \<and>
         ids_below_seq once \<and> ids_below_seq twice"
proof -
  note first = store_match_once [OF refl refl refl refl assms(3) assms(2)]
  then have ids1: "ids_below_seq once" by simp
  note second = store_match_once [OF refl refl refl refl assms(4) ids1]
  have a: "matches once = matches d \<or>
          matches once =
            matches d @ [stored_row L S now current_season match_data source (match_seq d) once]"
    using first unfolding stored_row_def by blast
  have b: "matches twice = matches once" if "matches once \<noteq> matches d"
  proof -
    from first that
    have s: "get_season_id (dict_get_default match_data ''season'' (JStr current_season)) once
               \<noteq> None"
      and h: "get_team_id (dict_get match_data ''home_team'') once \<noteq> None"
      and w: "get_team_id (dict_get match_data ''away_team'') once \<noteq> None"
      and m: "matches once =
            matches d @
              [new_match_row S now
                 (db_match_data L match_data source
                    (get_season_id (dict_get_default match_data ''season'' (JStr current_season))
                       once)
                    (get_competition_id
                       (dict_get_default match_data ''competition'' (JStr ''Unknown'')) once)
                    (get_team_id (dict_get match_data ''home_team'') once)
                    (get_team_id (dict_get match_data ''away_team'') once))
                 (match_seq d)]"
      by blast+
    from m have "new_match_row S now
                 (db_match_data L match_data source
                    (get_season_id (dict_get_default match_data ''season'' (JStr current_season))
                       once)
                    (get_competition_id
                       (dict_get_default match_data ''competition'' (JStr ''Unknown'')) once)
                    (get_team_id (dict_get match_data ''home_team'') once)
                    (get_team_id (dict_get match_data ''away_team'') once))
                 (match_seq d) \<in> set (matches once)"
      by simp
    from store_match_refused [OF refl refl refl refl assms(1) ids1 s h w this]
    show ?thesis unfolding assms(4) .
  qed
  have c: "matches twice = matches d \<or>
            matches twice =
              matches d @
                [stored_row L S later current_season match_data source (match_seq once) twice]"
    if "matches once = matches d"
    using second unfolding stored_row_def that by blast
  from second have ids2: "ids_below_seq twice" by simp
  from a b c ids1 ids2 show ?thesis by blast
qed

theorem store_match_idempotent_witness:
  "natural_key_unique keyed_schema \<and> ids_below_seq league_db \<and>
   matches league_db = [] \<and>
   matches (store_match plain_lib keyed_schema one_am ''2023/24'' fd_record ''football_data''
              league_db) = [fd_row] \<and>
   matches (store_match plain_lib keyed_schema (JStr ''2024-01-02 01:00:00'') ''2023/24''
              fd_record ''football_data''
              (store_match plain_lib keyed_schema one_am ''2023/24'' fd_record ''football_data''
                 league_db)) = [fd_row] \<and>
   errors (store_match plain_lib keyed_schema (JStr ''2024-01-02 01:00:00'') ''2023/24''
              fd_record ''football_data''
              (store_match plain_lib keyed_schema one_am ''2023/24'' fd_record ''football_data''
                 league_db)) = 2"
proof -
  have u: "natural_key_unique keyed_schema"
    by (simp add: natural_key_unique_def keyed_schema_def)
  have i: "ids_below_seq league_db"
    by code_simp
  have e: "matches league_db = []"
    by code_simp
  have o: "matches (store_match plain_lib keyed_schema one_am ''2023/24'' fd_record
             ''football_data'' league_db) = [fd_row]"
    by code_simp
  from store_match_idempotent [OF u i refl refl, of plain_lib one_am "''2023/24''" fd_record
         "''football_data''" "JStr ''2024-01-02 01:00:00''"] o e
  have "matches (store_match plain_lib keyed_schema (JStr ''2024-01-02 01:00:00'') ''2023/24''
              fd_record ''football_data''
              (store_match plain_lib keyed_schema one_am ''2023/24'' fd_record ''football_data''
                 league_db)) = [fd_row]"
    by simp
  moreover have "errors (store_match plain_lib keyed_schema (JStr ''2024-01-02 01:00:00'')
              ''2023/24'' fd_record ''football_data''
              (store_match plain_lib keyed_schema one_am ''2023/24'' fd_record ''football_data''
                 league_db)) = 2"
    by code_simp
  ultimately show ?thesis using u i e o by (intro conjI)
qed


lemma stores_pair_refl: "stores_pair h a rows rows"
  by (simp add: stores_pair_def list_all2_same)

lemma stores_pair_map:
  assumes "\<And>r. f r = r \<or> m_home_score (f r) = h \<and> m_away_score (f r) = a"
  shows "stores_pair h a rows (map f rows)"
proof -
  have "list_all2 (\<lambda>r r'. r' = r \<or> m_home_score r' = h \<and> m_away_score r' = a) rows
          (map f rows)"
    by (rule list_all2_map_right) (rule assms)
  then show ?thesis by (simp add: stores_pair_def)
qed

lemma stores_pair_append:
  assumes "m_home_score new = h" and "m_away_score new = a"
  shows "stores_pair h a rows (rows @ [new])"
  using assms by (simp add: stores_pair_def list_all2_same)

lemma stores_pair_ok:
  assumes "stores_pair h a rows rows'" and "list_all score_pair_ok rows" and "pair_ok h a"
  shows "list_all score_pair_ok rows'"
proof -
  from assms(1) have 1: "list_all2 (\<lambda>r r'. r' = r \<or> m_home_score r' = h \<and> m_away_score r' = a)
        rows (take (length rows) rows')"
    and 2: "list_all (\<lambda>r'. m_home_score r' = h \<and> m_away_score r' = a)
        (drop (length rows) rows')"
    by (simp_all add: stores_pair_def)
  have "list_all score_pair_ok (take (length rows) rows')"
    unfolding list_all_iff
  proof
    fix r' assume "r' \<in> set (take (length rows) rows')"
    then obtain i where i: "i < length (take (length rows) rows')"
      and r': "r' = take (length rows) rows' ! i"
      by (auto simp: in_set_conv_nth)
    from 1 i have "r' = rows ! i \<or> m_home_score r' = h \<and> m_away_score r' = a"
      unfolding r' by (auto simp: list_all2_conv_all_nth)
    moreover from 1 i have "i < length rows" by (auto simp: list_all2_conv_all_nth)
    with assms(2) have "score_pair_ok (rows ! i)" by (simp add: list_all_iff)
    ultimately show "score_pair_ok r'" using assms(3) by (auto simp: score_pair_ok_def)
  qed
  moreover from 2 assms(3) have "list_all score_pair_ok (drop (length rows) rows')"
    by (auto simp: list_all_iff score_pair_ok_def)
  ultimately have "list_all score_pair_ok (take (length rows) rows' @ drop (length rows) rows')"
    by (simp only: list_all_append simp_thms)
  then show ?thesis by (simp only: append_take_drop_id)
qed

lemma add_match_stores:
  assumes "matches d' = rows"
  shows "stores_pair (dict_get data ''home_score'') (dict_get data ''away_score'') rows
           (matches (snd (add_match S now data d')))"
proof -
  from add_match_rows [of S now data d']
  show ?thesis
  proof
    assume "matches (snd (add_match S now data d')) = matches d'"
    with assms show ?thesis by (simp add: stores_pair_refl)
  next
    assume "\<exists>new merge.
      m_home_score new = dict_get data ''home_score'' \<and>
      m_away_score new = dict_get data ''away_score'' \<and>
      m_id new = match_seq d' \<and>
      (\<forall>r. m_home_score (merge r) = dict_get data ''home_score'' \<and>
           m_away_score (merge r) = dict_get data ''away_score'') \<and>
      matches (snd (add_match S now data d')) =
        (if list_ex (\<lambda>r. m_id r = match_seq d') (matches d')
         then map (\<lambda>r. if m_id r = match_seq d' then merge r else r) (matches d')
         else matches d' @ [new])"
    then obtain new merge where
      n: "m_home_score new = dict_get data ''home_score''"
         "m_away_score new = dict_get data ''away_score''"
      and m: "\<And>r. m_home_score (merge r) = dict_get data ''home_score'' \<and>
           m_away_score (merge r) = dict_get data ''away_score''"
      and eq: "matches (snd (add_match S now data d')) =
        (if list_ex (\<lambda>r. m_id r = match_seq d') (matches d')
         then map (\<lambda>r. if m_id r = match_seq d' then merge r else r) (matches d')
         else matches d' @ [new])"
      by blast
    show ?thesis
    proof (cases "list_ex (\<lambda>r. m_id r = match_seq d') (matches d')")
      case True
      have "stores_pair (dict_get data ''home_score'') (dict_get data ''away_score'') (matches d')
              (map (\<lambda>r. if m_id r = match_seq d' then merge r else r) (matches d'))"
        by (rule stores_pair_map) (simp add: m)
      with True eq assms show ?thesis by simp
    next
      case False
      with eq assms stores_pair_append [OF n, of rows] show ?thesis by simp
    qed
  qed
qed

lemma update_match_score_rows:
  "matches (snd (update_match_score S now i h a st d)) = matches d \<or>
   matches (snd (update_match_score S now i h a st d)) =
     map (\<lambda>r. if m_id r = i
               then r\<lparr>m_home_score := h, m_away_score := a,
                      m_match_status := st, m_updated_at := now\<rparr>
               else r) (matches d)"
  by (auto simp: update_match_score_def update_where_def db_failed_def log_line_def
        split: option.splits if_splits)

lemma update_match_score_stores:
  "stores_pair h a (matches d) (matches (snd (update_match_score S now i h a st d)))"
proof -
  have "stores_pair h a (matches d)
          (map (\<lambda>r. if m_id r = i
               then r\<lparr>m_home_score := h, m_away_score := a,
                      m_match_status := st, m_updated_at := now\<rparr>
               else r) (matches d))"
    by (rule stores_pair_map) simp
  with update_match_score_rows [of S now i h a st d] show ?thesis
    by (auto simp: stores_pair_refl)
qed

lemma update_match_score_complete:
  assumes "h \<noteq> JNull" and "a \<noteq> JNull"
  shows "list_all2 (\<lambda>r r'. r' = r \<or>
            h \<noteq> JNull \<and> a \<noteq> JNull \<and> m_home_score r' = h \<and> m_away_score r' = a \<and>
            same_but_score r r')
           (matches d) (matches (snd (update_match_score S now i h a st d)))"
proof -
  have "list_all2 (\<lambda>r r'. r' = r \<or>
            h \<noteq> JNull \<and> a \<noteq> JNull \<and> m_home_score r' = h \<and> m_away_score r' = a \<and>
            same_but_score r r')
          (matches d)
          (map (\<lambda>r. if m_id r = i
               then r\<lparr>m_home_score := h, m_away_score := a,
                      m_match_status := st, m_updated_at := now\<rparr>
               else r) (matches d))"
    by (rule list_all2_map_right) (simp add: assms same_but_score_def)
  with update_match_score_rows [of S now i h a st d] show ?thesis
    by (auto simp: list_all2_same)
qed

lemma update_match_from_api_rows:
  "matches (update_match_from_api S now md source d) = matches d \<or>
   dict_get md ''home_score'' \<noteq> JNull \<and> dict_get md ''away_score'' \<noteq> JNull \<and>
   (\<exists>i st. matches (update_match_from_api S now md source d) =
      matches (snd (update_match_score S now i (dict_get md ''home_score'')
                      (dict_get md ''away_score'') st d)))"
  by (auto simp: matches_update_match_from_api update_match_from_api_body_def Let_def snd_bindS
        log_line_tables add_match_statistics_matches
        simp del: filter.simps split: sum.splits list.splits)

lemma store_in_season_stores:
  "stores_pair (dict_get md ''home_score'') (dict_get md ''away_score'') (matches d1)
     (matches (snd (store_in_season L S now md source sid d1)))"
  by (simp add: store_in_season_def Let_def snd_bindS log_line_tables resolve_team_matches
        store_statistics_matches stores_pair_refl
        add_match_stores [where data = "db_match_data L md source a b c e" for a b c e,
          unfolded db_match_data_scores]
        split: sum.splits)

lemma store_match_stores:
  "stores_pair (dict_get md ''home_score'') (dict_get md ''away_score'') (matches d)
     (matches (store_match L S now cs md source d))"
proof -
  obtain res d1 where r: "resolve_season L S (dict_get_default md ''season'' (JStr cs)) d
                            = (res, d1)"
    by (cases "resolve_season L S (dict_get_default md ''season'' (JStr cs)) d")
  from resolve_season_matches [of L S "dict_get_default md ''season'' (JStr cs)" d] r
  have m: "matches d1 = matches d" by simp
  show ?thesis
  proof (cases res)
    case (Inl e)
    with r m show ?thesis
      by (simp add: matches_store_match store_match_body_def Let_def bindS_def stores_pair_refl)
  next
    case (Inr sid)
    with r have "matches (store_match L S now cs md source d) =
                 matches (snd (store_in_season L S now md source sid d1))"
      by (simp add: matches_store_match store_match_body_def Let_def bindS_def)
    with store_in_season_stores [of md d1 L S now source sid] m show ?thesis by simp
  qed
qed

text \<open>
  C2, as the code has it: the daily updater writes a score only when both sides of the
  record's pair are there. With one side null \<^verbatim>\<open>_update_match_from_api\<close> leaves every
  match row as it is; otherwise every row is as it was or carries exactly the record's
  pair, which is complete, and differs from the old row in the scores, the status and the
  update timestamp only. \<^verbatim>\<open>_store_match\<close>, \<^verbatim>\<open>add_match\<close> and \<^verbatim>\<open>update_match_score\<close>
  store the pair they are handed without a check: every row they write carries exactly
  that pair, and every other row is as it was. So a store in which every match has a
  both-null or both-set pair stays such a store under the updater for every record, and
  under the other three whenever the pair handed in is itself both-null or both-set.
\<close>

theorem score_pairs_kept:
  "(dict_get match_data ''home_score'' = JNull \<or> dict_get match_data ''away_score'' = JNull \<longrightarrow>
      matches (update_match_from_api S now match_data source d) = matches d) \<and>
   list_all2
     (\<lambda>r r'. r' = r \<or>
        dict_get match_data ''home_score'' \<noteq> JNull \<and>
        dict_get match_data ''away_score'' \<noteq> JNull \<and>
        m_home_score r' = dict_get match_data ''home_score'' \<and>
        m_away_score r' = dict_get match_data ''away_score'' \<and>
        same_but_score r r')
     (matches d) (matches (update_match_from_api S now match_data source d)) \<and>
   stores_pair (dict_get match_data ''home_score'') (dict_get match_data ''away_score'')
     (matches d) (matches (store_match L S now current_season match_data source d)) \<and>
   stores_pair (dict_get data ''home_score'') (dict_get data ''away_score'')
     (matches d) (matches (snd (add_match S now data d))) \<and>
   stores_pair home away
     (matches d) (matches (snd (update_match_score S now match_id home away status d))) \<and>
   (list_all score_pair_ok (matches d) \<longrightarrow>
      list_all score_pair_ok (matches (update_match_from_api S now match_data source d)) \<and>
      (pair_ok (dict_get match_data ''home_score'') (dict_get match_data ''away_score'') \<longrightarrow>
         list_all score_pair_ok
           (matches (store_match L S now current_season match_data source d))) \<and>
      (pair_ok (dict_get data ''home_score'') (dict_get data ''away_score'') \<longrightarrow>
         list_all score_pair_ok (matches (snd (add_match S now data d)))) \<and>
      (pair_ok home away \<longrightarrow>
         list_all score_pair_ok
           (matches (snd (update_match_score S now match_id home away status d)))))"
proof -
  have unchanged: "matches (update_match_from_api S now match_data source d) = matches d"
    if "dict_get match_data ''home_score'' = JNull \<or> dict_get match_data ''away_score'' = JNull"
    using update_match_from_api_rows [of S now match_data source d] that by blast
  have rows: "list_all2
     (\<lambda>r r'. r' = r \<or>
        dict_get match_data ''home_score'' \<noteq> JNull \<and>
        dict_get match_data ''away_score'' \<noteq> JNull \<and>
        m_home_score r' = dict_get match_data ''home_score'' \<and>
        m_away_score r' = dict_get match_data ''away_score'' \<and>
        same_but_score r r')
     (matches d) (matches (update_match_from_api S now match_data source d))"
    using update_match_from_api_rows [of S now match_data source d]
  proof
    assume "matches (update_match_from_api S now match_data source d) = matches d"
    then show ?thesis by (simp add: list_all2_same)
  next
    assume "dict_get match_data ''home_score'' \<noteq> JNull \<and>
      dict_get match_data ''away_score'' \<noteq> JNull \<and>
      (\<exists>i st. matches (update_match_from_api S now match_data source d) =
         matches (snd (update_match_score S now i (dict_get match_data ''home_score'')
                         (dict_get match_data ''away_score'') st d)))"
    then obtain i st where h: "dict_get match_data ''home_score'' \<noteq> JNull"
      and a: "dict_get match_data ''away_score'' \<noteq> JNull"
      and eq: "matches (update_match_from_api S now match_data source d) =
         matches (snd (update_match_score S now i (dict_get match_data ''home_score'')
                         (dict_get match_data ''away_score'') st d))"
      by blast
    show ?thesis unfolding eq by (rule update_match_score_complete [OF h a])
  qed
  note sm = store_match_stores [of match_data d L S now current_season source]
  note am = add_match_stores [OF refl, where data = data and S = S and now = now and d' = d]
  note us = update_match_score_stores [of home away d S now match_id status]
  show ?thesis
    by (intro conjI impI unchanged rows sm am us
          update_match_from_api_pairs stores_pair_ok [OF sm] stores_pair_ok [OF am]
          stores_pair_ok [OF us])
qed

theorem score_pairs_kept_witness:
  "dict_get one_sided_record ''away_score'' = JNull \<and>
   map (\<lambda>r. (m_home_score r, m_away_score r))
     (matches (store_match plain_lib keyed_schema one_am ''2023/24'' one_sided_record
                 ''thesportsdb'' tsdb_db)) = [(JInt 2, JNull)] \<and>
   matches (update_match_from_api keyed_schema one_am one_sided_record ''thesportsdb''
              (store_match plain_lib keyed_schema one_am ''2023/24'' one_sided_record
                 ''thesportsdb'' tsdb_db)) =
     matches (store_match plain_lib keyed_schema one_am ''2023/24'' one_sided_record
                 ''thesportsdb'' tsdb_db) \<and>
   list_all score_pair_ok
     (matches (store_match plain_lib keyed_schema one_am ''2023/24'' fd_record ''football_data''
                 league_db)) \<and>
   list_all score_pair_ok
     (matches (update_match_from_api keyed_schema one_am fd_record ''football_data''
        (store_match plain_lib keyed_schema one_am ''2023/24'' fd_record ''football_data''
           league_db)))"
proof -
  have a: "dict_get one_sided_record ''away_score'' = JNull"
    by code_simp
  have s: "map (\<lambda>r. (m_home_score r, m_away_score r))
     (matches (store_match plain_lib keyed_schema one_am ''2023/24'' one_sided_record
                 ''thesportsdb'' tsdb_db)) = [(JInt 2, JNull)]"
    by code_simp
  have h: "list_all score_pair_ok
     (matches (store_match plain_lib keyed_schema one_am ''2023/24'' fd_record ''football_data''
                 league_db))"
    by code_simp
  from score_pairs_kept [where match_data = one_sided_record and S = keyed_schema
         and now = one_am and source = "''thesportsdb''"
         and d = "store_match plain_lib keyed_schema one_am ''2023/24'' one_sided_record
                    ''thesportsdb'' tsdb_db"] a
  have u: "matches (update_match_from_api keyed_schema one_am one_sided_record ''thesportsdb''
              (store_match plain_lib keyed_schema one_am ''2023/24'' one_sided_record
                 ''thesportsdb'' tsdb_db)) =
     matches (store_match plain_lib keyed_schema one_am ''2023/24'' one_sided_record
                 ''thesportsdb'' tsdb_db)"
    by blast
  from score_pairs_kept [where match_data = fd_record and S = keyed_schema
         and now = one_am and source = "''football_data''"
         and d = "store_match plain_lib keyed_schema one_am ''2023/24'' fd_record
                    ''football_data'' league_db"] h
  have k: "list_all score_pair_ok
     (matches (update_match_from_api keyed_schema one_am fd_record ''football_data''
        (store_match plain_lib keyed_schema one_am ''2023/24'' fd_record ''football_data''
           league_db)))"
    by blast
  from a s u h k show ?thesis by (intro conjI)
qed

theorem score_pairs_kept_counterexample:
  "parse_event plain_lib (2024, 1, 1) one_sided_event False = Some one_sided_record \<and>
   dict_get one_sided_record ''home_score'' = JInt 2 \<and>
   dict_get one_sided_record ''away_score'' = JNull \<and>
   map (\<lambda>r. (m_home_score r, m_away_score r))
     (matches (store_match plain_lib keyed_schema one_am ''2023/24'' one_sided_record
                 ''thesportsdb'' tsdb_db)) = [(JInt 2, JNull)]"
  by code_simp


end
